theory Spec2Isabelle
  imports Main "HOL-Library.Monad_Syntax"
begin

section \<open>Strings and truthiness\<close>

text \<open>
  The strings of this development are ASCII strings. On them \<open>str.lower()\<close> changes the
  letters A to Z and nothing else, and \<open>len\<close> counts characters; text outside ASCII,
  where \<open>str.lower()\<close> follows Unicode and lengths count code points, is not covered.
\<close>

definition lower_char :: "char \<Rightarrow> char" where
  "lower_char c =
     (case map_of (zip ''ABCDEFGHIJKLMNOPQRSTUVWXYZ'' ''abcdefghijklmnopqrstuvwxyz'') c of
        Some d \<Rightarrow> d
      | None \<Rightarrow> c)"

definition lower :: "string \<Rightarrow> string" where
  "lower s = map lower_char s"

text \<open>Python truthiness of an \<open>Optional[str]\<close>: \<open>None\<close> and the empty string are false.\<close>

definition truthy :: "string option \<Rightarrow> bool" where
  "truthy x = (case x of None \<Rightarrow> False | Some s \<Rightarrow> s \<noteq> [])"

text \<open>\<open>str(n)\<close> for an integer, as the f-strings of the service render it.\<close>

fun str_nat :: "nat \<Rightarrow> string" where
  "str_nat n =
     (if n < 10 then [''0123456789'' ! n]
      else str_nat (n div 10) @ [''0123456789'' ! (n mod 10)])"

definition str_int :: "int \<Rightarrow> string" where
  "str_int i = (if i < 0 then CHR ''-'' # str_nat (nat (- i)) else str_nat (nat i))"

section \<open>Data model (app/schemas/datapad.py and the field rows)\<close>

type_synonym timestamp = nat

text \<open>
  The rows the service reads through \<open>FormField\<close>: the attributes \<open>sync_service.py\<close>
  touches. \<open>id_ff\<close> is the attribute \<open>id\<close>; \<open>status\<close> holds the string the service
  assigns and compares.
\<close>

record FormField =
  id_ff :: int
  form_id :: int
  pdf_name :: string
  display_label :: "string option"
  group_name :: "string option"
  field_type :: string
  required :: bool
  validation_pattern :: "string option"
  datapad_field_id :: "string option"
  status :: string
  updated_at :: timestamp

text \<open>\<open>DataPadFieldType\<close>: the values of the enum, in declaration order.\<close>

definition DataPadFieldType :: "string list" where
  "DataPadFieldType =
     [''text'', ''textarea'', ''number'', ''email'', ''phone'', ''date'',
      ''checkbox'', ''radio'', ''select'', ''signature'', ''file'']"

datatype SyncStatus = pending | syncing | synced | error | conflict

record DataPadField =
  id_dp :: string
  label_dp :: string
  field_type_dp :: string
  group_dp :: "string option"
  required_dp :: bool

record field_metadata =
  md_pdf_name :: string
  md_form_id :: int
  md_field_id :: int

record DataPadFieldCreate =
  label_c :: string
  field_type_c :: string
  group_c :: "string option"
  required_c :: bool
  validation_rules_c :: "string option"
  metadata_c :: "field_metadata option"

record DataPadFieldUpdate =
  label_u :: "string option"
  field_type_u :: "string option"
  group_u :: "string option"
  required_u :: "bool option"
  validation_rules_u :: "string option"

record DataPadSyncResult =
  field_id :: int
  status_r :: SyncStatus
  datapad_field_id_r :: "string option"
  error_message :: "string option"
  synced_at :: "timestamp option"

text \<open>The \<open>summary\<close> dict of a sync response, with its four keys.\<close>

record summary =
  n_synced :: nat
  n_pending :: nat
  n_failed :: nat
  n_skipped :: nat

record DataPadSyncResponse =
  form_id_s :: int
  status_s :: SyncStatus
  results :: "DataPadSyncResult list"
  summary_s :: summary
  message :: "string option"
  started_at :: "timestamp option"
  completed_at :: "timestamp option"

section \<open>Exceptions\<close>

text \<open>
  \<open>DataPadAPIError\<close> and its four subclasses (datapad\_client.py), \<open>ValueError\<close>, and any
  other subclass of \<open>Exception\<close> with its \<open>str(e)\<close>.
\<close>

datatype api_error_class =
    DataPadAPIError
  | DataPadAuthenticationError
  | DataPadRateLimitError
  | DataPadNotFoundError
  | DataPadValidationError

fun class_name :: "api_error_class \<Rightarrow> string" where
  "class_name DataPadAPIError = ''DataPadAPIError''"
| "class_name DataPadAuthenticationError = ''DataPadAuthenticationError''"
| "class_name DataPadRateLimitError = ''DataPadRateLimitError''"
| "class_name DataPadNotFoundError = ''DataPadNotFoundError''"
| "class_name DataPadValidationError = ''DataPadValidationError''"

datatype exn =
    APIExc api_error_class string
  | ValueError string
  | OtherExc string

section \<open>The global names of sync\_service.py\<close>

text \<open>
  The names the module binds: its imports, \<open>logger\<close> and its two classes. The methods
  look up \<open>Form\<close> and \<open>FormField\<close> when they run (\<open>self.session.get(Form, ...)\<close>,
  \<open>select(FormField)\<close>); the module imports \<open>PdfDocument\<close> and \<open>PdfField\<close> and binds
  neither of the two names it uses, and they are no builtins, so the lookup raises
  \<open>NameError\<close>. The annotations that mention \<open>FormField\<close> are never evaluated
  (\<open>from __future__ import annotations\<close>). \<open>NameError\<close> is one of the other exceptions
  of \<open>exn\<close>, with the message Python gives it.
\<close>

definition module_globals :: "string list" where
  "module_globals =
     [''annotations'', ''logging'', ''datetime'', ''List'', ''Optional'', ''Tuple'',
      ''Session'', ''select'', ''PdfDocument'', ''PdfField'',
      ''DataPadFieldCreate'', ''DataPadSyncPayload'', ''DataPadSyncResponse'',
      ''DataPadSyncResult'', ''DataPadSyncStatusResponse'', ''SyncStatus'',
      ''DataPadAPIError'', ''DataPadClient'', ''DataPadNotFoundError'',
      ''logger'', ''SyncConflictError'', ''SyncService'']"

definition name_error_message :: "string \<Rightarrow> string" where
  "name_error_message n = ''name '' @ [CHR 0x27] @ n @ [CHR 0x27] @ '' is not defined''"

definition name_error :: "string \<Rightarrow> exn" where
  "name_error n = OtherExc (name_error_message n)"

section \<open>The remote client and the clock as the environment\<close>

text \<open>
  A call of the client is logged with its arguments. The remote registry answers a call
  as a function of the whole history of calls, which covers every deterministic remote.
  \<open>datetime.utcnow()\<close> returns the next reading of the clock.
\<close>

datatype call =
    create_field DataPadFieldCreate
  | update_field "string option" DataPadFieldUpdate

record env =
  remote :: "call list \<Rightarrow> exn + DataPadField"
  clock :: "nat \<Rightarrow> timestamp"

record io =
  calls :: "call list"
  ticks :: nat

definition utcnow :: "env \<Rightarrow> io \<Rightarrow> timestamp \<times> io" where
  "utcnow e s = (clock e (ticks s), s\<lparr>ticks := Suc (ticks s)\<rparr>)"

definition client_call :: "env \<Rightarrow> call \<Rightarrow> io \<Rightarrow> (exn + DataPadField) \<times> io" where
  "client_call e c s = (remote e (calls s @ [c]), s\<lparr>calls := calls s @ [c]\<rparr>)"

section \<open>sync\_service.py: payloads\<close>

definition map_field_type :: "string \<Rightarrow> string" where
  "map_field_type pdf_field_type =
     (case map_of
        [(''text'', ''text''),
         (''textarea'', ''textarea''),
         (''number'', ''number''),
         (''email'', ''email''),
         (''phone'', ''phone''),
         (''date'', ''date''),
         (''checkbox'', ''checkbox''),
         (''radio'', ''radio''),
         (''dropdown'', ''select''),
         (''signature'', ''signature''),
         (''file'', ''file'')] (lower pdf_field_type) of
        Some t \<Rightarrow> t
      | None \<Rightarrow> ''text'')"

text \<open>\<open>field.display_label or field.pdf_name\<close>.\<close>

definition label_of :: "FormField \<Rightarrow> string" where
  "label_of f = (if truthy (display_label f) then
                   (case display_label f of Some l \<Rightarrow> l | None \<Rightarrow> pdf_name f)
                 else pdf_name f)"

text \<open>
  The constraints the two pydantic models put on the values the service passes:
  \<open>label\<close> between 1 and 255 characters, \<open>field_type\<close> a member of the enum, \<open>group\<close> at
  most 100 characters. A violation raises pydantic's \<open>ValidationError\<close>, a \<open>ValueError\<close>;
  its message text is abbreviated to the name of the model.
\<close>

definition payload_valid :: "string \<Rightarrow> string \<Rightarrow> string option \<Rightarrow> bool" where
  "payload_valid lbl ft grp =
     (1 \<le> length lbl \<and> length lbl \<le> 255 \<and> ft \<in> set DataPadFieldType \<and>
      (case grp of None \<Rightarrow> True | Some g \<Rightarrow> length g \<le> 100))"

definition build_create :: "FormField \<Rightarrow> exn + DataPadFieldCreate" where
  "build_create f =
     (let ft = map_field_type (field_type f) in
      if payload_valid (label_of f) ft (group_name f) then
        Inr \<lparr>label_c = label_of f,
             field_type_c = ft,
             group_c = group_name f,
             required_c = required f,
             validation_rules_c =
               (if truthy (validation_pattern f) then validation_pattern f else None),
             metadata_c = Some \<lparr>md_pdf_name = pdf_name f, md_form_id = form_id f,
                                 md_field_id = id_ff f\<rparr>\<rparr>
      else Inl (ValueError ''validation error for DataPadFieldCreate''))"

definition build_update :: "FormField \<Rightarrow> exn + DataPadFieldUpdate" where
  "build_update f =
     (let ft = map_field_type (field_type f) in
      if payload_valid (label_of f) ft (group_name f) then
        Inr \<lparr>label_u = Some (label_of f),
             field_type_u = Some ft,
             group_u = group_name f,
             required_u = Some (required f),
             validation_rules_u =
               (if truthy (validation_pattern f) then validation_pattern f else None)\<rparr>
      else Inl (ValueError ''validation error for DataPadFieldUpdate''))"

definition create_datapad_field :: "env \<Rightarrow> FormField \<Rightarrow> io \<Rightarrow> (exn + DataPadField) \<times> io" where
  "create_datapad_field e f s =
     (case build_create f of
        Inl x \<Rightarrow> (Inl x, s)
      | Inr create_data \<Rightarrow> client_call e (create_field create_data) s)"

definition update_datapad_field :: "env \<Rightarrow> FormField \<Rightarrow> io \<Rightarrow> (exn + DataPadField) \<times> io" where
  "update_datapad_field e f s =
     (case build_update f of
        Inl x \<Rightarrow> (Inl x, s)
      | Inr update_data \<Rightarrow> client_call e (update_field (datapad_field_id f) update_data) s)"

section \<open>sync\_service.py: one field\<close>

text \<open>
  \<open>_sync_field\<close>. The field object comes back as the method leaves it; every path that
  returns has committed its last mutation, so this is also the stored row. The handler
  for \<open>DataPadNotFoundError\<close> calls the method again under policy \<open>overwrite\<close>; nothing
  bounds that recursion, so a call that does not return is the value \<open>None\<close>.
\<close>

partial_function (option) sync_field ::
  "env \<Rightarrow> bool \<Rightarrow> string \<Rightarrow> FormField \<Rightarrow> io \<Rightarrow> (DataPadSyncResult \<times> FormField \<times> io) option"
where
  "sync_field e force conflict_resolution f s =
     (if truthy (datapad_field_id f) \<and> status f = ''synced'' \<and> \<not> force then
        Some (\<lparr>field_id = id_ff f, status_r = synced,
               datapad_field_id_r = datapad_field_id f,
               error_message = None, synced_at = None\<rparr>, f, s)
      else
        (case utcnow e s of (t1, s1) \<Rightarrow>
         (let f1 = f\<lparr>status := ''syncing'', updated_at := t1\<rparr> in
          (case (if truthy (datapad_field_id f1) then update_datapad_field e f1 s1
                 else create_datapad_field e f1 s1) of
             (Inr datapad_field, s2) \<Rightarrow>
               (case utcnow e s2 of (t2, s3) \<Rightarrow>
                (case utcnow e s3 of (t3, s4) \<Rightarrow>
                 Some (\<lparr>field_id = id_ff f1, status_r = synced,
                        datapad_field_id_r = Some (id_dp datapad_field),
                        error_message = None, synced_at = Some t3\<rparr>,
                       f1\<lparr>datapad_field_id := Some (id_dp datapad_field),
                          status := ''synced'', updated_at := t2\<rparr>, s4)))
           | (Inl (APIExc DataPadNotFoundError msg), s2) \<Rightarrow>
               (if conflict_resolution = ''overwrite'' then
                  sync_field e True conflict_resolution (f1\<lparr>datapad_field_id := None\<rparr>) s2
                else
                  Some (\<lparr>field_id = id_ff f1, status_r = conflict,
                         datapad_field_id_r = None,
                         error_message = Some (''DataPad field not found: '' @ msg),
                         synced_at = None\<rparr>,
                        f1\<lparr>status := ''conflict''\<rparr>, s2))
           | (Inl (APIExc cls msg), s2) \<Rightarrow>
               Some (\<lparr>field_id = id_ff f1, status_r = error,
                      datapad_field_id_r = None,
                      error_message = Some (class_name cls @ '': '' @ msg),
                      synced_at = None\<rparr>,
                     f1\<lparr>status := ''error''\<rparr>, s2)
           | (Inl (ValueError msg), s2) \<Rightarrow>
               Some (\<lparr>field_id = id_ff f1, status_r = error,
                      datapad_field_id_r = None,
                      error_message = Some (''Unexpected error: '' @ msg),
                      synced_at = None\<rparr>,
                     f1\<lparr>status := ''error''\<rparr>, s2)
           | (Inl (OtherExc msg), s2) \<Rightarrow>
               Some (\<lparr>field_id = id_ff f1, status_r = error,
                      datapad_field_id_r = None,
                      error_message = Some (''Unexpected error: '' @ msg),
                      synced_at = None\<rparr>,
                     f1\<lparr>status := ''error''\<rparr>, s2)))))"

declare sync_field.simps [code]

section \<open>sync\_service.py: the store and the document\<close>

text \<open>
  The session: the ids of the documents that exist, the field rows in the order a query
  returns them, and the log of client calls with the clock. \<open>select_fields\<close> is the
  query of \<open>sync_document\<close> and \<open>reset_sync_status\<close>: \<open>if field_ids:\<close> is false for
  \<open>None\<close> and for the empty list. The objects a query returns are the rows themselves, so
  what the loop does to them is written back in place (\<open>write_back\<close>).
  \<open>sync_document_in g\<close> and \<open>reset_sync_status_in g\<close> are the two methods run in a module
  whose global names are \<open>g\<close>; \<open>sync_document\<close> and \<open>reset_sync_status\<close> are the methods
  of the module as it is written, with the names of \<open>module_globals\<close>.
\<close>

record world =
  forms :: "int set"
  rows :: "FormField list"
  io_st :: io

definition selects :: "int \<Rightarrow> int list option \<Rightarrow> FormField \<Rightarrow> bool" where
  "selects document_id field_ids f =
     (form_id f = document_id \<and>
      (case field_ids of
         None \<Rightarrow> True
       | Some ids \<Rightarrow> (if ids \<noteq> [] then id_ff f \<in> set ids else True)))"

definition select_fields :: "int \<Rightarrow> int list option \<Rightarrow> FormField list \<Rightarrow> FormField list" where
  "select_fields document_id field_ids rs = filter (selects document_id field_ids) rs"

fun write_back :: "(FormField \<Rightarrow> bool) \<Rightarrow> FormField list \<Rightarrow> FormField list \<Rightarrow> FormField list" where
  "write_back sel [] us = []"
| "write_back sel (r # rs) us =
     (if sel r then
        (case us of
           [] \<Rightarrow> r # write_back sel rs []
         | u # us' \<Rightarrow> u # write_back sel rs us')
      else r # write_back sel rs us)"

definition empty_summary :: summary where
  "empty_summary = \<lparr>n_synced = 0, n_pending = 0, n_failed = 0, n_skipped = 0\<rparr>"

definition update_summary :: "summary \<Rightarrow> DataPadSyncResult \<Rightarrow> summary" where
  "update_summary sm result =
     (if status_r result = synced then sm\<lparr>n_synced := n_synced sm + 1\<rparr>
      else if status_r result = pending then sm\<lparr>n_pending := n_pending sm + 1\<rparr>
      else if status_r result = error then sm\<lparr>n_failed := n_failed sm + 1\<rparr>
      else sm\<lparr>n_skipped := n_skipped sm + 1\<rparr>)"

text \<open>The loop \<open>for field in fields\<close> of \<open>sync_document\<close>.\<close>

fun sync_loop ::
  "env \<Rightarrow> bool \<Rightarrow> string \<Rightarrow> FormField list \<Rightarrow> DataPadSyncResult list \<Rightarrow> summary \<Rightarrow> io \<Rightarrow>
   (FormField list \<times> DataPadSyncResult list \<times> summary \<times> io) option"
where
  "sync_loop e force cr [] res sm s = Some ([], res, sm, s)"
| "sync_loop e force cr (f # fs) res sm s =
     (case sync_field e force cr f s of
        None \<Rightarrow> None
      | Some (result, f', s') \<Rightarrow>
          (case sync_loop e force cr fs (res @ [result]) (update_summary sm result) s' of
             None \<Rightarrow> None
           | Some (fs', res', sm', s'') \<Rightarrow> Some (f' # fs', res', sm', s'')))"

definition overall_status :: "summary \<Rightarrow> SyncStatus" where
  "overall_status sm =
     (if n_failed sm > 0 then error
      else if n_pending sm > 0 then syncing
      else synced)"

definition sync_document_in ::
  "string list \<Rightarrow> env \<Rightarrow> int \<Rightarrow> int list option \<Rightarrow> bool \<Rightarrow> string \<Rightarrow> world \<Rightarrow>
   ((exn + DataPadSyncResponse) \<times> world) option"
where
  "sync_document_in g e document_id field_ids force conflict_resolution w =
     (case utcnow e (io_st w) of (t0, s0) \<Rightarrow>
      if ''Form'' \<notin> set g then
        Some (Inl (name_error ''Form''), w\<lparr>io_st := s0\<rparr>)
      else if document_id \<notin> forms w then
        Some (Inl (ValueError (''Document '' @ str_int document_id @ '' not found'')),
              w\<lparr>io_st := s0\<rparr>)
      else if ''FormField'' \<notin> set g then
        Some (Inl (name_error ''FormField''), w\<lparr>io_st := s0\<rparr>)
      else
        (let fields = select_fields document_id field_ids (rows w) in
         if fields = [] then
           (case utcnow e s0 of (t1, s1) \<Rightarrow>
            Some (Inr \<lparr>form_id_s = document_id, status_s = synced, results = [],
                       summary_s = empty_summary,
                       message = Some ''No fields to sync'',
                       started_at = Some t0, completed_at = Some t1\<rparr>,
                  w\<lparr>io_st := s1\<rparr>))
         else
           (case sync_loop e force conflict_resolution fields [] empty_summary s0 of
              None \<Rightarrow> None
            | Some (fields', res, sm, s1) \<Rightarrow>
                (case utcnow e s1 of (t1, s2) \<Rightarrow>
                 Some (Inr \<lparr>form_id_s = document_id, status_s = overall_status sm,
                            results = res, summary_s = sm, message = None,
                            started_at = Some t0, completed_at = Some t1\<rparr>,
                       w\<lparr>rows := write_back (selects document_id field_ids) (rows w) fields',
                         io_st := s2\<rparr>)))))"

definition sync_document ::
  "env \<Rightarrow> int \<Rightarrow> int list option \<Rightarrow> bool \<Rightarrow> string \<Rightarrow> world \<Rightarrow>
   ((exn + DataPadSyncResponse) \<times> world) option"
where
  "sync_document = sync_document_in module_globals"

text \<open>\<open>reset_sync_status\<close>: the loop, then the method.\<close>

fun reset_loop :: "env \<Rightarrow> FormField list \<Rightarrow> nat \<Rightarrow> io \<Rightarrow> FormField list \<times> nat \<times> io" where
  "reset_loop e [] count s = ([], count, s)"
| "reset_loop e (f # fs) count s =
     (case utcnow e s of (t, s1) \<Rightarrow>
      (case reset_loop e fs (count + 1) s1 of (fs', count', s') \<Rightarrow>
       (f\<lparr>status := ''pending'', datapad_field_id := None, updated_at := t\<rparr> # fs',
        count', s')))"

definition reset_sync_status_in ::
  "string list \<Rightarrow> env \<Rightarrow> int \<Rightarrow> int list option \<Rightarrow> world \<Rightarrow> (exn + nat) \<times> world"
where
  "reset_sync_status_in g e document_id field_ids w =
     (if ''FormField'' \<notin> set g then (Inl (name_error ''FormField''), w)
      else
        (case reset_loop e (select_fields document_id field_ids (rows w)) 0 (io_st w) of
           (fields', count, s') \<Rightarrow>
             (Inr count,
              w\<lparr>rows := write_back (selects document_id field_ids) (rows w) fields',
                io_st := s'\<rparr>)))"

definition reset_sync_status ::
  "env \<Rightarrow> int \<Rightarrow> int list option \<Rightarrow> world \<Rightarrow> (exn + nat) \<times> world"
where
  "reset_sync_status = reset_sync_status_in module_globals"

section \<open>api/routes/datapad.py: the sync route\<close>

record DataPadSyncPayload =
  form_id_p :: int
  field_ids_p :: "int list"
  force_p :: bool
  conflict_resolution_p :: string

datatype http_exception = HTTPException nat string

text \<open>
  \<open>sync_form\<close>: a missing payload is the default one; an empty \<open>field_ids\<close> is passed on
  as \<open>None\<close>; the \<open>except\<close> clauses of the route are \<open>http_result\<close>: a \<open>ValueError\<close>
  becomes 404, a \<open>DataPadAPIError\<close> the status of its class (500 for the base class,
  whose own status code \<open>exn\<close> does not keep), any other exception 500.
  \<open>sync_form_in g\<close> is the route over the service module with global names \<open>g\<close>.
\<close>

definition default_payload :: "int \<Rightarrow> DataPadSyncPayload" where
  "default_payload fid =
     \<lparr>form_id_p = fid, field_ids_p = [], force_p = False,
      conflict_resolution_p = ''skip''\<rparr>"

definition http_result ::
  "((exn + DataPadSyncResponse) \<times> world) option \<Rightarrow>
   ((http_exception + DataPadSyncResponse) \<times> world) option"
where
  "http_result x =
     (case x of
        None \<Rightarrow> None
      | Some (Inr r, w') \<Rightarrow> Some (Inr r, w')
      | Some (Inl (ValueError msg), w') \<Rightarrow> Some (Inl (HTTPException 404 msg), w')
      | Some (Inl (APIExc cls msg), w') \<Rightarrow>
          Some (Inl (HTTPException
                  (case cls of
                     DataPadAuthenticationError \<Rightarrow> 401
                   | DataPadNotFoundError \<Rightarrow> 404
                   | DataPadValidationError \<Rightarrow> 422
                   | DataPadRateLimitError \<Rightarrow> 429
                   | DataPadAPIError \<Rightarrow> 500) msg), w')
      | Some (Inl (OtherExc msg), w') \<Rightarrow>
          Some (Inl (HTTPException 500 (''Sync failed: '' @ msg)), w'))"

definition sync_form_in ::
  "string list \<Rightarrow> env \<Rightarrow> int \<Rightarrow> DataPadSyncPayload option \<Rightarrow> world \<Rightarrow>
   ((http_exception + DataPadSyncResponse) \<times> world) option"
where
  "sync_form_in g e fid payload w =
     (let p = (case payload of None \<Rightarrow> default_payload fid | Some p \<Rightarrow> p) in
      http_result
        (sync_document_in g e fid
           (if field_ids_p p \<noteq> [] then Some (field_ids_p p) else None)
           (force_p p) (conflict_resolution_p p) w))"

definition sync_form ::
  "env \<Rightarrow> int \<Rightarrow> DataPadSyncPayload option \<Rightarrow> world \<Rightarrow>
   ((http_exception + DataPadSyncResponse) \<times> world) option"
where
  "sync_form = sync_form_in module_globals"

section \<open>datapad\_client.py: one request and its retries\<close>

text \<open>
  What the transport does with one underlying request: it times out, fails on the network,
  raises something else, or delivers a response. \<open>json_r\<close> is the result of
  \<open>response.json()\<close> read as a dict of strings, \<open>None\<close> when it raises (the text of
  that exception is abbreviated). The rate-limit counters are bookkeeping that no branch
  reads; they are left out.
\<close>

record http_response =
  status_code :: int
  text_r :: string
  json_r :: "(string \<rightharpoonup> string) option"

datatype transport_result =
    timeout_exception
  | network_error
  | other_exception string
  | response http_response

datatype request_exn =
    TimeoutException
  | NetworkError
  | DataPadExc api_error_class string "int option"
  | RetryError

definition handle_error_response :: "http_response \<Rightarrow> request_exn" where
  "handle_error_response r =
     (let msg = (case json_r r of
                   Some error_data \<Rightarrow>
                     (case error_data ''message'' of
                        Some m \<Rightarrow> m
                      | None \<Rightarrow> (case error_data ''error'' of Some m \<Rightarrow> m | None \<Rightarrow> text_r r))
                 | None \<Rightarrow> text_r r);
          sc = status_code r
      in if sc = 401 \<or> sc = 403 then DataPadExc DataPadAuthenticationError msg (Some sc)
         else if sc = 404 then DataPadExc DataPadNotFoundError msg (Some sc)
         else if sc = 422 then DataPadExc DataPadValidationError msg (Some sc)
         else if sc = 429 then DataPadExc DataPadRateLimitError msg (Some sc)
         else DataPadExc DataPadAPIError msg (Some sc))"

text \<open>The body of \<open>_request\<close>: one underlying request and what it raises or returns.\<close>

definition request_once :: "transport_result \<Rightarrow> request_exn + (string \<rightharpoonup> string)" where
  "request_once t =
     (case t of
        response r \<Rightarrow>
          (if status_code r \<ge> 400 then Inl (handle_error_response r)
           else if text_r r \<noteq> [] then
             (case json_r r of
                Some data \<Rightarrow> Inr data
              | None \<Rightarrow> Inl (DataPadExc DataPadAPIError ''Unexpected error: invalid JSON'' None))
           else Inr Map.empty)
      | timeout_exception \<Rightarrow> Inl TimeoutException
      | network_error \<Rightarrow> Inl NetworkError
      | other_exception m \<Rightarrow> Inl (DataPadExc DataPadAPIError (''Unexpected error: '' @ m) None))"

text \<open>
  The decorator of \<open>_request\<close>:
  \<open>retry_if_exception_type((TimeoutException, NetworkError))\<close>,
  \<open>wait_exponential(multiplier=1, min=2, max=10)\<close> and \<open>stop_after_attempt(3)\<close>, as tenacity
  runs them: an attempt that raises a retried exception is followed by a sleep and
  another attempt, unless the stop condition holds, which raises \<open>RetryError\<close>; any other
  exception leaves at once. Attempts count from 1; \<open>transport n\<close> is what the n-th
  underlying request meets. The trace lists the requests issued and the sleeps.
\<close>

definition retry_if_exception_type :: "request_exn \<Rightarrow> bool" where
  "retry_if_exception_type x = (x = TimeoutException \<or> x = NetworkError)"

definition wait_exponential :: "int \<Rightarrow> int \<Rightarrow> int \<Rightarrow> nat \<Rightarrow> int" where
  "wait_exponential multiplier mn mx attempt_number =
     max (max 0 mn) (min (multiplier * 2 ^ (attempt_number - 1)) mx)"

definition stop_after_attempt :: "nat \<Rightarrow> nat \<Rightarrow> bool" where
  "stop_after_attempt max_attempt_number attempt_number = (attempt_number \<ge> max_attempt_number)"

datatype event = Request nat | Sleep int

function retrying ::
  "(nat \<Rightarrow> transport_result) \<Rightarrow> nat \<Rightarrow> event list \<Rightarrow>
   (request_exn + (string \<rightharpoonup> string)) \<times> event list"
where
  "retrying transport n trace =
     (case request_once (transport n) of
        Inr data \<Rightarrow> (Inr data, trace @ [Request n])
      | Inl x \<Rightarrow>
          (if \<not> retry_if_exception_type x then (Inl x, trace @ [Request n])
           else if stop_after_attempt 3 n then (Inl RetryError, trace @ [Request n])
           else retrying transport (Suc n)
                  (trace @ [Request n, Sleep (wait_exponential 1 2 10 n)])))"
  by pat_completeness auto
termination
  by (relation "measure (\<lambda>(transport, n, trace). 3 - n)")
     (auto simp: stop_after_attempt_def)

declare retrying.simps [simp del]

definition request :: "(nat \<Rightarrow> transport_result) \<Rightarrow>
   (request_exn + (string \<rightharpoonup> string)) \<times> event list" where
  "request transport = retrying transport 1 []"

section \<open>The parts of \<open>_sync_field\<close> by name\<close>

text \<open>
  The guard of the early return, the field as committed with status \<open>syncing\<close>, and the
  client call of the \<open>try\<close> block with what it returns or raises.
\<close>

definition skips :: "bool \<Rightarrow> FormField \<Rightarrow> bool" where
  "skips force f = (truthy (datapad_field_id f) \<and> status f = ''synced'' \<and> \<not> force)"

definition syncing_field :: "env \<Rightarrow> FormField \<Rightarrow> io \<Rightarrow> FormField" where
  "syncing_field e f s = f\<lparr>status := ''syncing'', updated_at := clock e (ticks s)\<rparr>"

definition try_call :: "env \<Rightarrow> FormField \<Rightarrow> io \<Rightarrow> (exn + DataPadField) \<times> io" where
  "try_call e f s =
     (if truthy (datapad_field_id f)
      then update_datapad_field e (syncing_field e f s) (s\<lparr>ticks := Suc (ticks s)\<rparr>)
      else create_datapad_field e (syncing_field e f s) (s\<lparr>ticks := Suc (ticks s)\<rparr>))"

text \<open>A transport result that the decorator retries, and a row after a reset.\<close>

definition transient :: "transport_result \<Rightarrow> bool" where
  "transient t = (t = timeout_exception \<or> t = network_error)"

definition reset_of :: "FormField \<Rightarrow> FormField \<Rightarrow> bool" where
  "reset_of f f' =
     (\<exists>t. f' = f\<lparr>status := ''pending'', datapad_field_id := None, updated_at := t\<rparr>)"

text \<open>A summary that counts the results by status, as the loop keeps it.\<close>

definition counted :: "summary \<Rightarrow> DataPadSyncResult list \<Rightarrow> bool" where
  "counted sm res =
     (n_synced sm = length (filter (\<lambda>r. status_r r = synced) res) \<and>
      n_pending sm = length (filter (\<lambda>r. status_r r = pending) res) \<and>
      n_failed sm = length (filter (\<lambda>r. status_r r = error) res) \<and>
      n_skipped sm = length (filter (\<lambda>r. status_r r \<noteq> synced \<and> status_r r \<noteq> pending \<and>
                                         status_r r \<noteq> error) res))"

section \<open>Concrete fields, remotes and stores\<close>

text \<open>
  A field that was mapped before and failed, and the same field with the empty string as
  its remote id and status \<open>synced\<close>.
\<close>

definition demo_field :: FormField where
  "demo_field =
     \<lparr>id_ff = 7, form_id = 1, pdf_name = ''customer'', display_label = None,
      group_name = None, field_type = ''Dropdown'', required = True,
      validation_pattern = None, datapad_field_id = Some ''dp-7'',
      status = ''error'', updated_at = 0\<rparr>"

definition empty_id_field :: FormField where
  "empty_id_field = demo_field\<lparr>datapad_field_id := Some [], status := ''synced''\<rparr>"

definition demo_update :: DataPadFieldUpdate where
  "demo_update =
     \<lparr>label_u = Some ''customer'', field_type_u = Some ''select'', group_u = None,
      required_u = Some True, validation_rules_u = None\<rparr>"

definition demo_create :: DataPadFieldCreate where
  "demo_create =
     \<lparr>label_c = ''customer'', field_type_c = ''select'', group_c = None,
      required_c = True, validation_rules_c = None,
      metadata_c = Some \<lparr>md_pdf_name = ''customer'', md_form_id = 1, md_field_id = 7\<rparr>\<rparr>"

definition created_field :: DataPadField where
  "created_field =
     \<lparr>id_dp = ''dp-new'', label_dp = ''customer'', field_type_dp = ''select'',
      group_dp = None, required_dp = True\<rparr>"

text \<open>
  Three remotes: one that accepts every call, one that has lost the field (an update
  answers 404, a create succeeds), and one that answers 404 to every call.
\<close>

definition remote_ok :: env where
  "remote_ok = \<lparr>remote = (\<lambda>h. Inr created_field), clock = (\<lambda>n. n)\<rparr>"

definition remote_deleted :: env where
  "remote_deleted =
     \<lparr>remote = (\<lambda>h. case rev h of
                        update_field i u # _ \<Rightarrow> Inl (APIExc DataPadNotFoundError ''gone'')
                      | _ \<Rightarrow> Inr created_field),
      clock = (\<lambda>n. n)\<rparr>"

definition remote_404 :: env where
  "remote_404 =
     \<lparr>remote = (\<lambda>h. Inl (APIExc DataPadNotFoundError ''gone'')), clock = (\<lambda>n. n)\<rparr>"

definition io0 :: io where
  "io0 = \<lparr>calls = [], ticks = 0\<rparr>"

text \<open>
  A store with three documents: document 1 has the field above and a field with no name
  and no label, document 2 has a synced field, document 3 has no field.
\<close>

definition blank_field :: FormField where
  "blank_field =
     \<lparr>id_ff = 8, form_id = 1, pdf_name = [], display_label = None,
      group_name = None, field_type = ''text'', required = False,
      validation_pattern = None, datapad_field_id = None,
      status = ''draft'', updated_at = 0\<rparr>"

definition other_field :: FormField where
  "other_field =
     \<lparr>id_ff = 9, form_id = 2, pdf_name = ''iban'', display_label = Some ''IBAN'',
      group_name = None, field_type = ''text'', required = True,
      validation_pattern = None, datapad_field_id = Some ''dp-9'',
      status = ''synced'', updated_at = 0\<rparr>"

definition demo_world :: world where
  "demo_world =
     \<lparr>forms = {1, 2, 3}, rows = [demo_field, blank_field, other_field], io_st = io0\<rparr>"

text \<open>The names of the module with \<open>Form\<close> and \<open>FormField\<close> bound as well.\<close>

definition bound_globals :: "string list" where
  "bound_globals = ''Form'' # ''FormField'' # module_globals"

text \<open>
  Three transports: one that times out once and then delivers a 404, one that delivers
  a 404 at once, and one that times out every time.
\<close>

definition gone_response :: http_response where
  "gone_response = \<lparr>status_code = 404, text_r = ''gone'', json_r = None\<rparr>"

definition flaky_transport :: "nat \<Rightarrow> transport_result" where
  "flaky_transport n = (if n = 1 then timeout_exception else response gone_response)"

definition gone_transport :: "nat \<Rightarrow> transport_result" where
  "gone_transport n = response gone_response"

definition dead_transport :: "nat \<Rightarrow> transport_result" where
  "dead_transport n = timeout_exception"

section \<open>Payloads do not depend on the sync state of the field\<close>

lemma label_of_upd [simp]:
  "label_of (f\<lparr>status := st\<rparr>) = label_of f"
  "label_of (f\<lparr>updated_at := t\<rparr>) = label_of f"
  "label_of (f\<lparr>datapad_field_id := x\<rparr>) = label_of f"
  by (simp_all add: label_of_def cong: if_cong option.case_cong)

lemma build_update_upd [simp]:
  "build_update (f\<lparr>status := st\<rparr>) = build_update f"
  "build_update (f\<lparr>updated_at := t\<rparr>) = build_update f"
  "build_update (f\<lparr>datapad_field_id := x\<rparr>) = build_update f"
  by (simp_all add: build_update_def Let_def cong: if_cong)

lemma build_create_upd [simp]:
  "build_create (f\<lparr>status := st\<rparr>) = build_create f"
  "build_create (f\<lparr>updated_at := t\<rparr>) = build_create f"
  "build_create (f\<lparr>datapad_field_id := x\<rparr>) = build_create f"
  by (simp_all add: build_create_def Let_def cong: if_cong)

lemma demo_build_create: "build_create demo_field = Inr demo_create"
  by (simp add: build_create_def demo_field_def demo_create_def label_of_def truthy_def
      payload_valid_def map_field_type_def lower_def lower_char_def DataPadFieldType_def)

lemma demo_build_update: "build_update demo_field = Inr demo_update"
  by (simp add: build_update_def demo_field_def demo_update_def label_of_def truthy_def
      payload_valid_def map_field_type_def lower_def lower_char_def DataPadFieldType_def)

section \<open>The field type mapping\<close>

lemma map_field_type_member: "map_field_type s \<in> set DataPadFieldType"
  unfolding map_field_type_def DataPadFieldType_def
  by (auto split: option.splits if_splits)

text \<open>
  C10. \<open>_map_field_type\<close> is total into the remote enum: whatever the input string, the
  result is a member of \<open>DataPadFieldType\<close>; an input that lower-cases to \<open>dropdown\<close> gives
  \<open>select\<close>, one that lower-cases to another known type gives that type, and every other
  input gives \<open>text\<close>. So the payload of every create and every update carries a member of
  the enum, namely the mapped type of the field.
\<close>

theorem map_field_type_total:
  "map_field_type s \<in> set DataPadFieldType \<and>
   (lower s = ''dropdown'' \<longrightarrow> map_field_type s = ''select'') \<and>
   (lower s \<in> set [''text'', ''textarea'', ''number'', ''email'', ''phone'', ''date'',
                    ''checkbox'', ''radio'', ''signature'', ''file'']
      \<longrightarrow> map_field_type s = lower s) \<and>
   (lower s \<notin> set [''text'', ''textarea'', ''number'', ''email'', ''phone'', ''date'',
                    ''checkbox'', ''radio'', ''dropdown'', ''signature'', ''file'']
      \<longrightarrow> map_field_type s = ''text'') \<and>
   (\<forall>p. build_create f = Inr p \<longrightarrow>
        field_type_c p = map_field_type (field_type f) \<and>
        field_type_c p \<in> set DataPadFieldType) \<and>
   (\<forall>p. build_update f = Inr p \<longrightarrow>
        field_type_u p = Some (map_field_type (field_type f)) \<and>
        map_field_type (field_type f) \<in> set DataPadFieldType)"
proof -
  have known: "lower s \<in> set [''text'', ''textarea'', ''number'', ''email'', ''phone'',
      ''date'', ''checkbox'', ''radio'', ''signature'', ''file'']
      \<longrightarrow> map_field_type s = lower s"
    by (auto simp: map_field_type_def)
  have dropdown: "lower s = ''dropdown'' \<longrightarrow> map_field_type s = ''select''"
    by (simp add: map_field_type_def)
  have other: "lower s \<notin> set [''text'', ''textarea'', ''number'', ''email'', ''phone'',
      ''date'', ''checkbox'', ''radio'', ''dropdown'', ''signature'', ''file'']
      \<longrightarrow> map_field_type s = ''text''"
    by (auto simp: map_field_type_def)
  have create: "\<forall>p. build_create f = Inr p \<longrightarrow>
        field_type_c p = map_field_type (field_type f) \<and>
        field_type_c p \<in> set DataPadFieldType"
    using map_field_type_member [of "field_type f"]
    by (auto simp: build_create_def Let_def split: if_splits)
  have update: "\<forall>p. build_update f = Inr p \<longrightarrow>
        field_type_u p = Some (map_field_type (field_type f)) \<and>
        map_field_type (field_type f) \<in> set DataPadFieldType"
    using map_field_type_member [of "field_type f"]
    by (auto simp: build_update_def Let_def split: if_splits)
  from map_field_type_member [of s] dropdown known other create update
  show ?thesis by blast
qed

theorem map_field_type_total_witness:
  "map_field_type ''DropDown'' = ''select'' \<and>
   map_field_type ''Radio'' = ''radio'' \<and>
   map_field_type ''barcode'' = ''text'' \<and>
   build_create demo_field = Inr demo_create \<and>
   field_type_c demo_create \<in> set DataPadFieldType \<and>
   build_update demo_field = Inr demo_update \<and>
   field_type_u demo_update = Some ''select''"
proof -
  have l1: "lower ''DropDown'' = ''dropdown''" and l2: "lower ''Radio'' = ''radio''"
    and l3: "lower ''barcode'' = ''barcode''"
    by (simp_all add: lower_def lower_char_def)
  have c: "build_create demo_field = Inr demo_create"
    by (simp add: build_create_def demo_field_def demo_create_def label_of_def truthy_def
        payload_valid_def map_field_type_def lower_def lower_char_def DataPadFieldType_def)
  have u: "build_update demo_field = Inr demo_update"
    by (simp add: build_update_def demo_field_def demo_update_def label_of_def truthy_def
        payload_valid_def map_field_type_def lower_def lower_char_def DataPadFieldType_def)
  from map_field_type_total [of "''DropDown''" demo_field]
       map_field_type_total [of "''Radio''" demo_field]
       map_field_type_total [of "''barcode''" demo_field] l1 l2 l3 c u
  show ?thesis by (simp add: demo_update_def)
qed

section \<open>One field: the branches of \<open>_sync_field\<close>\<close>

lemma sync_field_skip:
  "skips force f \<Longrightarrow> sync_field e force cr f s =
     Some (\<lparr>field_id = id_ff f, status_r = synced, datapad_field_id_r = datapad_field_id f,
            error_message = None, synced_at = None\<rparr>, f, s)"
  by (subst sync_field.simps) (simp add: skips_def)

lemma sync_field_ok:
  "\<not> skips force f \<Longrightarrow> try_call e f s = (Inr dp, s2) \<Longrightarrow>
   sync_field e force cr f s =
     Some (\<lparr>field_id = id_ff f, status_r = synced, datapad_field_id_r = Some (id_dp dp),
            error_message = None, synced_at = Some (clock e (Suc (ticks s2)))\<rparr>,
           f\<lparr>datapad_field_id := Some (id_dp dp), status := ''synced'',
             updated_at := clock e (ticks s2)\<rparr>,
           s2\<lparr>ticks := Suc (Suc (ticks s2))\<rparr>)"
  by (subst sync_field.simps)
     (auto simp add: skips_def try_call_def syncing_field_def utcnow_def Let_def
           split: if_splits)

lemma sync_field_retry:
  "\<not> skips force f \<Longrightarrow> try_call e f s = (Inl (APIExc DataPadNotFoundError msg), s2) \<Longrightarrow>
   sync_field e force ''overwrite'' f s =
     sync_field e True ''overwrite'' ((syncing_field e f s)\<lparr>datapad_field_id := None\<rparr>) s2"
  by (subst sync_field.simps)
     (auto simp add: skips_def try_call_def syncing_field_def utcnow_def Let_def
           split: if_splits)

lemma sync_field_conflict:
  "\<not> skips force f \<Longrightarrow> try_call e f s = (Inl (APIExc DataPadNotFoundError msg), s2) \<Longrightarrow>
   cr \<noteq> ''overwrite'' \<Longrightarrow>
   sync_field e force cr f s =
     Some (\<lparr>field_id = id_ff f, status_r = conflict, datapad_field_id_r = None,
            error_message = Some (''DataPad field not found: '' @ msg), synced_at = None\<rparr>,
           (syncing_field e f s)\<lparr>status := ''conflict''\<rparr>, s2)"
  by (subst sync_field.simps)
     (auto simp add: skips_def try_call_def syncing_field_def utcnow_def Let_def
           split: if_splits)

lemma sync_field_api_error:
  "\<not> skips force f \<Longrightarrow> try_call e f s = (Inl (APIExc cls msg), s2) \<Longrightarrow>
   cls \<noteq> DataPadNotFoundError \<Longrightarrow>
   sync_field e force cr f s =
     Some (\<lparr>field_id = id_ff f, status_r = error, datapad_field_id_r = None,
            error_message = Some (class_name cls @ '': '' @ msg), synced_at = None\<rparr>,
           (syncing_field e f s)\<lparr>status := ''error''\<rparr>, s2)"
  by (subst sync_field.simps, cases cls)
     (auto simp add: skips_def try_call_def syncing_field_def utcnow_def Let_def
           split: if_splits)

lemma sync_field_unexpected:
  "\<not> skips force f \<Longrightarrow>
   try_call e f s = (Inl (ValueError msg), s2) \<or> try_call e f s = (Inl (OtherExc msg), s2) \<Longrightarrow>
   sync_field e force cr f s =
     Some (\<lparr>field_id = id_ff f, status_r = error, datapad_field_id_r = None,
            error_message = Some (''Unexpected error: '' @ msg), synced_at = None\<rparr>,
           (syncing_field e f s)\<lparr>status := ''error''\<rparr>, s2)"
  by (subst sync_field.simps)
     (auto simp add: skips_def try_call_def syncing_field_def utcnow_def Let_def
           split: if_splits)

text \<open>What the call of the \<open>try\<close> block is, by the remote id and the payload.\<close>

lemma try_call_update:
  "truthy (datapad_field_id f) \<Longrightarrow> build_update f = Inr u \<Longrightarrow>
   try_call e f s =
     (remote e (calls s @ [update_field (datapad_field_id f) u]),
      \<lparr>calls = calls s @ [update_field (datapad_field_id f) u], ticks = Suc (ticks s)\<rparr>)"
  by (simp add: try_call_def update_datapad_field_def client_call_def syncing_field_def)

lemma try_call_create:
  "\<not> truthy (datapad_field_id f) \<Longrightarrow> build_create f = Inr c \<Longrightarrow>
   try_call e f s =
     (remote e (calls s @ [create_field c]),
      \<lparr>calls = calls s @ [create_field c], ticks = Suc (ticks s)\<rparr>)"
  by (simp add: try_call_def create_datapad_field_def client_call_def syncing_field_def)

section \<open>A field that is already synced\<close>

text \<open>
  C4, as the code has it. A field with status \<open>synced\<close> whose remote id is a non-empty
  string is left alone by a sync without \<open>force\<close>: the field object and the log of client
  calls come back as they were, no clock is read, and the result has status \<open>synced\<close> and
  carries the remote id. The guard is the truth value of the remote id, so the id has to
  be non-empty, not only non-null.
\<close>

theorem sync_field_already_synced:
  assumes "status f = ''synced''" and "datapad_field_id f = Some r" and "r \<noteq> []"
  shows "sync_field e False cr f s =
           Some (\<lparr>field_id = id_ff f, status_r = synced, datapad_field_id_r = Some r,
                  error_message = None, synced_at = None\<rparr>, f, s)"
  using assms sync_field_skip [of False f e cr s] by (simp add: skips_def truthy_def)

theorem sync_field_already_synced_witness:
  "sync_field remote_404 False ''overwrite'' (demo_field\<lparr>status := ''synced''\<rparr>) io0 =
     Some (\<lparr>field_id = 7, status_r = synced, datapad_field_id_r = Some ''dp-7'',
            error_message = None, synced_at = None\<rparr>, demo_field\<lparr>status := ''synced''\<rparr>, io0)"
  using sync_field_already_synced [of "demo_field\<lparr>status := ''synced''\<rparr>" "''dp-7''"
      remote_404 "''overwrite''" io0]
  by (simp add: demo_field_def)

text \<open>
  The claim as written asks only for a non-null remote id. With the empty string as remote
  id the guard is false: the field is set to \<open>syncing\<close>, one \<open>createField\<close> call is made
  and the field gets the id the remote returns.
\<close>

theorem sync_field_empty_remote_id_counterexample:
  "status empty_id_field = ''synced'' \<and> datapad_field_id empty_id_field = Some [] \<and>
   sync_field remote_ok False ''skip'' empty_id_field io0 =
     Some (\<lparr>field_id = 7, status_r = synced, datapad_field_id_r = Some ''dp-new'',
            error_message = None, synced_at = Some 2\<rparr>,
           empty_id_field\<lparr>datapad_field_id := Some ''dp-new'', updated_at := 1\<rparr>,
           \<lparr>calls = [create_field demo_create], ticks = 3\<rparr>)"
proof -
  have ns: "\<not> skips False empty_id_field"
    by (simp add: skips_def empty_id_field_def truthy_def)
  have nt: "\<not> truthy (datapad_field_id empty_id_field)"
    by (simp add: empty_id_field_def truthy_def)
  have bc: "build_create empty_id_field = Inr demo_create"
    by (simp add: empty_id_field_def demo_build_create)
  have tc: "try_call remote_ok empty_id_field io0 =
      (Inr created_field, \<lparr>calls = [create_field demo_create], ticks = 1\<rparr>)"
    using try_call_create [OF nt bc, of remote_ok io0] by (simp add: remote_ok_def io0_def)
  show ?thesis
    using sync_field_ok [OF ns tc, of "''skip''"]
    by (simp add: empty_id_field_def demo_field_def remote_ok_def created_field_def)
qed

section \<open>The remote field is gone: policies \<open>skip\<close> and \<open>merge\<close>\<close>

text \<open>
  C2. A field with a remote id is not skipped, its update payload is valid, and the
  remote answers the \<open>updateField\<close> call with \<open>DataPadNotFoundError\<close>. Under policy \<open>skip\<close>
  or \<open>merge\<close> the call returns a result with status \<open>conflict\<close> and a non-empty error
  message, the field ends with status \<open>conflict\<close> and the remote id it had, and the
  \<open>updateField\<close> call is the only client call made for the field.
\<close>

theorem sync_field_not_found_conflict:
  assumes "truthy (datapad_field_id f)" and "\<not> (status f = ''synced'' \<and> \<not> force)"
    and "build_update f = Inr u"
    and "remote e (calls s @ [update_field (datapad_field_id f) u]) =
           Inl (APIExc DataPadNotFoundError msg)"
    and "cr = ''skip'' \<or> cr = ''merge''"
  shows "\<exists>r f' s'. sync_field e force cr f s = Some (r, f', s') \<and>
           status_r r = conflict \<and> field_id r = id_ff f \<and>
           (\<exists>m. error_message r = Some m \<and> m \<noteq> []) \<and>
           status f' = ''conflict'' \<and> datapad_field_id f' = datapad_field_id f \<and>
           calls s' = calls s @ [update_field (datapad_field_id f) u]"
proof -
  from assms(2) have ns: "\<not> skips force f" by (simp add: skips_def)
  from assms(5) have cr: "cr \<noteq> ''overwrite''" by auto
  from try_call_update [OF assms(1) assms(3), of e s] assms(4)
  have tc: "try_call e f s = (Inl (APIExc DataPadNotFoundError msg),
      \<lparr>calls = calls s @ [update_field (datapad_field_id f) u], ticks = Suc (ticks s)\<rparr>)"
    by simp
  from sync_field_conflict [OF ns tc cr] show ?thesis
    by (simp add: syncing_field_def)
qed

theorem sync_field_not_found_conflict_witness:
  "\<exists>r f' s'. sync_field remote_deleted False ''skip'' demo_field io0 = Some (r, f', s') \<and>
           status_r r = conflict \<and> field_id r = 7 \<and>
           (\<exists>m. error_message r = Some m \<and> m \<noteq> []) \<and>
           status f' = ''conflict'' \<and> datapad_field_id f' = Some ''dp-7'' \<and>
           calls s' = [update_field (Some ''dp-7'') demo_update]"
proof -
  have 1: "truthy (datapad_field_id demo_field)" by (simp add: demo_field_def truthy_def)
  have 2: "\<not> (status demo_field = ''synced'' \<and> \<not> False)" by (simp add: demo_field_def)
  have 4: "remote remote_deleted (calls io0 @ [update_field (datapad_field_id demo_field) demo_update])
      = Inl (APIExc DataPadNotFoundError ''gone'')"
    by (simp add: remote_deleted_def io0_def)
  have 5: "''skip'' = ''skip'' \<or> ''skip'' = ''merge''" by simp
  from sync_field_not_found_conflict [OF 1 2 demo_build_update 4 5]
  show ?thesis by (simp add: demo_field_def io0_def)
qed

section \<open>The remote field is gone: policy \<open>overwrite\<close>\<close>

text \<open>
  When the \<open>createField\<close> call that follows the failed update succeeds, the field ends
  \<open>synced\<close> with the new remote id after exactly these two calls.
\<close>

lemma sync_field_overwrite_recreates:
  assumes "truthy (datapad_field_id f)" and "\<not> (status f = ''synced'' \<and> \<not> force)"
    and "build_update f = Inr u" and "build_create f = Inr c"
    and "remote e (calls s @ [update_field (datapad_field_id f) u]) =
           Inl (APIExc DataPadNotFoundError msg)"
    and "remote e (calls s @ [update_field (datapad_field_id f) u, create_field c]) = Inr dp"
  shows "\<exists>r f' s'. sync_field e force ''overwrite'' f s = Some (r, f', s') \<and>
           status_r r = synced \<and> datapad_field_id_r r = Some (id_dp dp) \<and>
           status f' = ''synced'' \<and> datapad_field_id f' = Some (id_dp dp) \<and>
           calls s' = calls s @ [update_field (datapad_field_id f) u, create_field c]"
proof -
  let ?s2 = "\<lparr>calls = calls s @ [update_field (datapad_field_id f) u], ticks = Suc (ticks s)\<rparr>"
  let ?f2 = "(syncing_field e f s)\<lparr>datapad_field_id := None\<rparr>"
  from assms(2) have ns: "\<not> skips force f" by (simp add: skips_def)
  from try_call_update [OF assms(1) assms(3), of e s] assms(5)
  have tc: "try_call e f s = (Inl (APIExc DataPadNotFoundError msg), ?s2)" by simp
  have ns2: "\<not> skips True ?f2" by (simp add: skips_def)
  have nt: "\<not> truthy (datapad_field_id ?f2)" by (simp add: truthy_def)
  have bc: "build_create ?f2 = Inr c" using assms(4) by (simp add: syncing_field_def)
  from try_call_create [OF nt bc, of e ?s2] assms(6)
  have tc2: "try_call e ?f2 ?s2 =
      (Inr dp, \<lparr>calls = calls s @ [update_field (datapad_field_id f) u, create_field c],
                ticks = Suc (Suc (ticks s))\<rparr>)" by simp
  from sync_field_retry [OF ns tc] sync_field_ok [OF ns2 tc2, of "''overwrite''"]
  show ?thesis by simp
qed

text \<open>
  The retry is a call of \<open>_sync_field\<close> itself, so its \<open>createField\<close> call runs under the
  same handler: a create that raises \<open>DataPadNotFoundError\<close> clears the id and calls again.
  Against a remote that answers every call with 404 no call of \<open>_sync_field\<close> under
  policy \<open>overwrite\<close> returns, unless it is skipped or its payload is invalid.
\<close>

lemma sync_field_overwrite_all_not_found:
  assumes "sync_field e force cr f s = Some y"
  shows "\<not> (remote e = (\<lambda>h. Inl (APIExc DataPadNotFoundError m)) \<and> cr = ''overwrite'' \<and>
            (\<exists>c. build_create f = Inr c) \<and> (\<exists>u. build_update f = Inr u) \<and>
            \<not> skips force f)"
  apply (rule sync_field.raw_induct [where P = "\<lambda>e force cr f s y. \<not> (remote e = (\<lambda>h. Inl (APIExc DataPadNotFoundError m)) \<and> cr = ''overwrite'' \<and>
            (\<exists>c. build_create f = Inr c) \<and> (\<exists>u. build_update f = Inr u) \<and>
            \<not> skips force f)", OF _ assms])
  subgoal premises prems for sf e force cr f s y
  proof
    assume a: "remote e = (\<lambda>h. Inl (APIExc DataPadNotFoundError m)) \<and> cr = ''overwrite'' \<and>
            (\<exists>c. build_create f = Inr c) \<and> (\<exists>u. build_update f = Inr u) \<and>
            \<not> skips force f"
    then obtain c u where c: "build_create f = Inr c" and u: "build_update f = Inr u" by blast
    from a have ns: "\<not> (truthy (datapad_field_id f) \<and> status f = ''synced'' \<and> \<not> force)"
      by (simp add: skips_def)
    from a have r: "\<And>h. remote e h = Inl (APIExc DataPadNotFoundError m)" by simp
    from a have cr: "cr = ''overwrite''" by simp
    from prems(2) ns c u r cr have
      "\<exists>s2. sf e True cr
         (f\<lparr>status := ''syncing'', updated_at := clock e (ticks s), datapad_field_id := None\<rparr>) s2
       = Some y"
      by (auto simp: utcnow_def update_datapad_field_def create_datapad_field_def
          client_call_def Let_def split: if_splits)
    then obtain s2 where "sf e True cr
         (f\<lparr>status := ''syncing'', updated_at := clock e (ticks s), datapad_field_id := None\<rparr>) s2
       = Some y" by blast
    from prems(1) [OF this] a c u show False by (simp add: truthy_def skips_def)
  qed
  done

lemma demo_field_overwrite_404:
  "sync_field remote_404 force ''overwrite'' demo_field s = None"
proof (cases "sync_field remote_404 force ''overwrite'' demo_field s")
  case None
  then show ?thesis .
next
  case (Some y)
  from sync_field_overwrite_all_not_found [OF Some, of "''gone''"]
  show ?thesis
    by (simp add: remote_404_def demo_build_create demo_build_update skips_def)
       (simp add: demo_field_def)
qed

text \<open>
  C1 at a failing input: a field with remote id \<open>dp-7\<close>, policy \<open>overwrite\<close>, and a remote
  that answers every call with 404. The claim promises exactly one follow-up
  \<open>createField\<close> call; the code issues one at every level of a recursion that has no
  bound, and the call does not return.
\<close>

theorem sync_field_overwrite_recursion_unbounded:
  "truthy (datapad_field_id demo_field) \<and>
   sync_field remote_404 False ''overwrite'' demo_field io0 = None"
  using demo_field_overwrite_404 [of False io0]
  by (simp add: demo_field_def truthy_def)


section \<open>The loop of \<open>sync_document\<close>\<close>

text \<open>
  Under every policy but \<open>overwrite\<close> a call of \<open>_sync_field\<close> returns: whatever the
  client raises becomes a result with status \<open>error\<close> or \<open>conflict\<close>.
\<close>

lemma sync_field_returns:
  assumes "cr \<noteq> ''overwrite''"
  shows "\<exists>r f' s'. sync_field e force cr f s = Some (r, f', s') \<and> field_id r = id_ff f \<and>
           (status_r r = synced \<or> status_r r = error \<or> status_r r = conflict) \<and>
           id_ff f' = id_ff f \<and> form_id f' = form_id f"
proof (cases "skips force f")
  case True
  from sync_field_skip [OF True] show ?thesis by simp
next
  case False
  obtain x s2 where tc: "try_call e f s = (x, s2)" by (cases "try_call e f s")
  show ?thesis
  proof (cases x)
    case (Inr dp)
    with sync_field_ok [OF False, of e s dp s2 cr] tc show ?thesis by simp
  next
    case (Inl ex)
    show ?thesis
    proof (cases ex)
      case (APIExc cls msg)
      show ?thesis
      proof (cases "cls = DataPadNotFoundError")
        case True
        with sync_field_conflict [OF False _ assms, of e s msg s2] tc Inl APIExc
        show ?thesis by (simp add: syncing_field_def)
      next
        case nf: False
        with sync_field_api_error [OF False _ nf, of e s msg s2 cr] tc Inl APIExc
        show ?thesis by (simp add: syncing_field_def)
      qed
    next
      case (ValueError msg)
      with sync_field_unexpected [OF False, of e s msg s2 cr] tc Inl
      show ?thesis by (simp add: syncing_field_def)
    next
      case (OtherExc msg)
      with sync_field_unexpected [OF False, of e s msg s2 cr] tc Inl
      show ?thesis by (simp add: syncing_field_def)
    qed
  qed
qed

lemma sync_loop_captures:
  assumes "cr \<noteq> ''overwrite''"
  shows "\<exists>fs' res2 sm' s'.
           sync_loop e force cr fs res sm s = Some (fs', res @ res2, sm', s') \<and>
           map field_id res2 = map id_ff fs \<and>
           (\<forall>r \<in> set res2. status_r r = synced \<or> status_r r = error \<or> status_r r = conflict)"
proof (induction fs arbitrary: res sm s)
  case Nil
  show ?case by simp
next
  case (Cons f fs)
  from sync_field_returns [OF assms, of e force f s]
  obtain r f' s' where 1: "sync_field e force cr f s = Some (r, f', s')"
    and 2: "field_id r = id_ff f"
    and 3: "status_r r = synced \<or> status_r r = error \<or> status_r r = conflict" by blast
  from Cons [of "res @ [r]" "update_summary sm r" s']
  obtain fs' res2 sm' s'' where
    4: "sync_loop e force cr fs (res @ [r]) (update_summary sm r) s' =
          Some (fs', (res @ [r]) @ res2, sm', s'')"
    and 5: "map field_id res2 = map id_ff fs"
    and 6: "\<forall>r \<in> set res2. status_r r = synced \<or> status_r r = error \<or> status_r r = conflict"
    by blast
  from 1 4 have "sync_loop e force cr (f # fs) res sm s = Some (f' # fs', res @ (r # res2), sm', s'')"
    by simp
  moreover from 2 5 have "map field_id (r # res2) = map id_ff (f # fs)" by simp
  moreover from 3 6 have "\<forall>r \<in> set (r # res2).
      status_r r = synced \<or> status_r r = error \<or> status_r r = conflict" by simp
  ultimately show ?case by blast
qed

lemma counted_update: "counted sm res \<Longrightarrow> counted (update_summary sm r) (res @ [r])"
  by (simp add: counted_def update_summary_def)

lemma sync_loop_counted:
  "sync_loop e force cr fs res sm s = Some (fs', res', sm', s') \<Longrightarrow> counted sm res \<Longrightarrow>
   counted sm' res' \<and> length res' = length res + length fs \<and> length fs' = length fs"
proof (induction fs arbitrary: res sm s fs')
  case Nil
  then show ?case by simp
next
  case (Cons f fs)
  from Cons.prems(1) obtain r f' s1 fs1 where
    1: "sync_field e force cr f s = Some (r, f', s1)" and
    2: "sync_loop e force cr fs (res @ [r]) (update_summary sm r) s1 = Some (fs1, res', sm', s')"
    and 3: "fs' = f' # fs1"
    by (auto split: option.splits)
  from Cons.IH [OF 2 counted_update [OF Cons.prems(2)]] 3 show ?case by simp
qed

section \<open>The module as written: unbound names\<close>

text \<open>
  \<open>Form\<close> is not among the names of the module, so every call of \<open>sync_document\<close> raises
  \<open>NameError\<close> after reading the clock once, whatever the document, the fields and the
  remote are; every call of \<open>reset_sync_status\<close> raises it at its first statement; and the
  route turns it into a 500.
\<close>

lemma Form_unbound: "''Form'' \<notin> set module_globals"
  by (simp add: module_globals_def)

lemma FormField_unbound: "''FormField'' \<notin> set module_globals"
  by (simp add: module_globals_def)


lemma sync_document_name_error:
  "sync_document e document_id field_ids force cr w =
     Some (Inl (name_error ''Form''),
           w\<lparr>io_st := (io_st w)\<lparr>ticks := Suc (ticks (io_st w))\<rparr>\<rparr>)"
  by (simp add: sync_document_def sync_document_in_def utcnow_def Form_unbound)

lemma reset_sync_status_name_error:
  "reset_sync_status e document_id field_ids w = (Inl (name_error ''FormField''), w)"
  by (simp add: reset_sync_status_def reset_sync_status_in_def FormField_unbound)

lemma sync_form_name_error:
  "sync_form e fid payload w =
     Some (Inl (HTTPException 500 (''Sync failed: '' @ name_error_message ''Form'')),
           w\<lparr>io_st := (io_st w)\<lparr>ticks := Suc (ticks (io_st w))\<rparr>\<rparr>)"
  by (simp add: sync_form_def sync_form_in_def sync_document_in_def utcnow_def Form_unbound
      http_result_def name_error_def Let_def)

section \<open>A document that is already synced\<close>

text \<open>
  With the two names bound: when every selected field is skipped, a sync without
  \<open>force\<close> is a no-op on the store: the rows and the log of client calls are as before
  and every result is \<open>synced\<close> with the remote id of its field.
\<close>

lemma write_back_same: "write_back sel rs (filter sel rs) = rs"
  by (induction rs) simp_all

lemma sync_loop_all_skipped:
  assumes "\<forall>f \<in> set fs. skips False f"
  shows "sync_loop e False cr fs res sm s =
           Some (fs,
                 res @ map (\<lambda>f. \<lparr>field_id = id_ff f, status_r = synced,
                                   datapad_field_id_r = datapad_field_id f,
                                   error_message = None, synced_at = None\<rparr>) fs,
                 sm\<lparr>n_synced := n_synced sm + length fs\<rparr>, s)"
  using assms
proof (induction fs arbitrary: res sm)
  case Nil
  show ?case by simp
next
  case (Cons f fs)
  from Cons.prems have sk: "skips False f" and rest: "\<forall>f \<in> set fs. skips False f" by simp_all
  from sync_field_skip [OF sk, of e cr s] Cons.IH [OF rest]
  show ?case by (simp add: update_summary_def)
qed

lemma sync_document_all_synced:
  assumes "''Form'' \<in> set g" and "''FormField'' \<in> set g"
    and "document_id \<in> forms w"
    and "\<forall>f \<in> set (select_fields document_id field_ids (rows w)). skips False f"
  shows "\<exists>resp w'. sync_document_in g e document_id field_ids False cr w = Some (Inr resp, w') \<and>
           rows w' = rows w \<and> calls (io_st w') = calls (io_st w) \<and>
           status_s resp = synced \<and>
           map status_r (results resp) =
             map (\<lambda>f. synced) (select_fields document_id field_ids (rows w)) \<and>
           map datapad_field_id_r (results resp) =
             map datapad_field_id (select_fields document_id field_ids (rows w))"
proof (cases "select_fields document_id field_ids (rows w) = []")
  case True
  with assms(1-3) show ?thesis by (simp add: sync_document_in_def utcnow_def)
next
  case False
  from sync_loop_all_skipped [OF assms(4)] False assms(1-3)
  show ?thesis
    by (simp add: sync_document_in_def utcnow_def overall_status_def empty_summary_def
        select_fields_def write_back_same comp_def Let_def)
qed

section \<open>Errors of the document and errors of a field\<close>

text \<open>
  With the two names bound: whenever \<open>sync_document_in\<close> returns, it has raised
  \<open>ValueError\<close> exactly when the document does not exist. Under every policy but
  \<open>overwrite\<close> it returns for every input, with one result per selected field, in order,
  each \<open>synced\<close>, \<open>error\<close> or \<open>conflict\<close>.
\<close>

lemma sync_document_raises_iff:
  assumes "''Form'' \<in> set g" and "''FormField'' \<in> set g"
    and "sync_document_in g e document_id field_ids force cr w = Some (x, w')"
  shows "(\<exists>m. x = Inl (ValueError m)) = (document_id \<notin> forms w)"
    and "(\<exists>resp. x = Inr resp) = (document_id \<in> forms w)"
  using assms
  by (auto simp: sync_document_in_def utcnow_def Let_def split: if_splits option.splits)

lemma sync_document_not_found:
  "''Form'' \<in> set g \<Longrightarrow> document_id \<notin> forms w \<Longrightarrow>
   sync_document_in g e document_id field_ids force cr w =
     Some (Inl (ValueError (''Document '' @ str_int document_id @ '' not found'')),
           w\<lparr>io_st := (io_st w)\<lparr>ticks := Suc (ticks (io_st w))\<rparr>\<rparr>)"
  by (simp add: sync_document_in_def utcnow_def)

lemma sync_document_captures:
  assumes "''Form'' \<in> set g" and "''FormField'' \<in> set g"
    and "cr \<noteq> ''overwrite''" and "document_id \<in> forms w"
  shows "\<exists>resp w'. sync_document_in g e document_id field_ids force cr w = Some (Inr resp, w') \<and>
           map field_id (results resp) = map id_ff (select_fields document_id field_ids (rows w)) \<and>
           (\<forall>r \<in> set (results resp).
              status_r r = synced \<or> status_r r = error \<or> status_r r = conflict)"
proof (cases "select_fields document_id field_ids (rows w) = []")
  case True
  with assms(1,2,4) show ?thesis by (simp add: sync_document_in_def utcnow_def)
next
  case False
  from sync_loop_captures [OF assms(3), of e force
      "select_fields document_id field_ids (rows w)" "[]" empty_summary
      "io_st w\<lparr>ticks := Suc (ticks (io_st w))\<rparr>"]
  obtain fs' res2 sm' s' where
    "sync_loop e force cr (select_fields document_id field_ids (rows w)) [] empty_summary
       (io_st w\<lparr>ticks := Suc (ticks (io_st w))\<rparr>) = Some (fs', res2, sm', s')"
    "map field_id res2 = map id_ff (select_fields document_id field_ids (rows w))"
    "\<forall>r \<in> set res2. status_r r = synced \<or> status_r r = error \<or> status_r r = conflict"
    by auto
  with False assms(1,2,4) show ?thesis by (simp add: sync_document_in_def utcnow_def)
qed


section \<open>The aggregate status\<close>

text \<open>
  With the two names bound (a response is returned only then): whenever the sync returns
  a response, its status is \<open>error\<close> if the summary counts a failed field, else \<open>syncing\<close>
  if it counts a pending one, else \<open>synced\<close>; and the failed and pending counts are the
  numbers of results with status \<open>error\<close> and \<open>pending\<close>.
\<close>

lemma sync_document_overall_status:
  assumes "sync_document_in g e document_id field_ids force cr w = Some (Inr resp, w')"
  shows "status_s resp =
           (if n_failed (summary_s resp) > 0 then error
            else if n_pending (summary_s resp) > 0 then syncing
            else synced) \<and>
         n_failed (summary_s resp) = length (filter (\<lambda>r. status_r r = error) (results resp)) \<and>
         n_pending (summary_s resp) = length (filter (\<lambda>r. status_r r = pending) (results resp))"
proof (cases "select_fields document_id field_ids (rows w) = []")
  case True
  with assms show ?thesis
    by (auto simp: sync_document_in_def utcnow_def empty_summary_def split: if_splits)
next
  case False
  with assms obtain fields' res sm s1 where
    l: "sync_loop e force cr (select_fields document_id field_ids (rows w)) [] empty_summary
          (io_st w\<lparr>ticks := Suc (ticks (io_st w))\<rparr>) = Some (fields', res, sm, s1)"
    and r: "results resp = res" "summary_s resp = sm" "status_s resp = overall_status sm"
    by (auto simp: sync_document_in_def utcnow_def Let_def split: if_splits option.splits)
  have "counted empty_summary []" by (simp add: counted_def empty_summary_def)
  from sync_loop_counted [OF l this] r show ?thesis
    by (simp add: counted_def overall_status_def)
qed

lemma sync_document_bound_run:
  "\<exists>resp w'. sync_document_in bound_globals remote_deleted 1 None False ''skip'' demo_world =
       Some (Inr resp, w') \<and>
     map status_r (results resp) = [conflict, error] \<and>
     n_failed (summary_s resp) = 1 \<and> status_s resp = error"
proof -
  have "case sync_document_in bound_globals remote_deleted 1 None False ''skip'' demo_world of
          Some (Inr resp, w') \<Rightarrow> map status_r (results resp) = [conflict, error]
        | _ \<Rightarrow> False"
    by code_simp
  then obtain resp w' where
    run: "sync_document_in bound_globals remote_deleted 1 None False ''skip'' demo_world =
            Some (Inr resp, w')"
    and res: "map status_r (results resp) = [conflict, error]"
    by (auto split: option.splits sum.splits)
  from res obtain a b where ab: "results resp = [a, b]" "status_r a = conflict" "status_r b = error"
    by auto
  from sync_document_overall_status [OF run] ab res run show ?thesis by simp
qed


section \<open>The empty selection\<close>

text \<open>
  With the two names bound: for a document that exists and has no selected field, the
  sync returns at once: status \<open>synced\<close>, no results, a summary of zeros; the rows and the
  log of client calls are as before, only the clock has been read twice.
\<close>

lemma sync_document_empty_selection:
  assumes "''Form'' \<in> set g" and "''FormField'' \<in> set g"
    and "document_id \<in> forms w"
    and "select_fields document_id field_ids (rows w) = []"
  shows "sync_document_in g e document_id field_ids force cr w =
           Some (Inr \<lparr>form_id_s = document_id, status_s = synced, results = [],
                      summary_s = \<lparr>n_synced = 0, n_pending = 0, n_failed = 0, n_skipped = 0\<rparr>,
                      message = Some ''No fields to sync'',
                      started_at = Some (clock e (ticks (io_st w))),
                      completed_at = Some (clock e (Suc (ticks (io_st w))))\<rparr>,
                 w\<lparr>io_st := \<lparr>calls = calls (io_st w), ticks = Suc (Suc (ticks (io_st w)))\<rparr>\<rparr>)"
  using assms by (simp add: sync_document_in_def utcnow_def empty_summary_def)

text \<open>
  C6 at a failing input: document 3 exists and has no field. The claim promises a
  response with status \<open>synced\<close>, no results and a summary of zeros. As the module is
  written the call raises \<open>NameError\<close> at the lookup of \<open>Form\<close> and returns no response.
\<close>

theorem sync_document_empty_selection_name_error:
  "3 \<in> forms demo_world \<and> select_fields 3 None (rows demo_world) = [] \<and>
   sync_document remote_404 3 None True ''overwrite'' demo_world =
     Some (Inl (name_error ''Form''), demo_world\<lparr>io_st := \<lparr>calls = [], ticks = 1\<rparr>\<rparr>)"
proof -
  have 1: "3 \<in> forms demo_world" by (simp add: demo_world_def)
  have 2: "select_fields 3 None (rows demo_world) = []"
    by (simp add: select_fields_def selects_def demo_world_def demo_field_def blank_field_def
        other_field_def)
  have 3: "sync_document remote_404 3 None True ''overwrite'' demo_world =
     Some (Inl (name_error ''Form''), demo_world\<lparr>io_st := \<lparr>calls = [], ticks = 1\<rparr>\<rparr>)"
    by (simp add: sync_document_name_error) (simp add: demo_world_def io0_def)
  from 1 2 3 show ?thesis by simp
qed

section \<open>An empty list of field ids\<close>

text \<open>
  With the two names bound: \<open>field_ids = []\<close> selects what \<open>field_ids = None\<close> selects, all
  the fields of the document; the sync does the same with either, and under every policy
  but \<open>overwrite\<close> its results are one per field of the document, in order; the route
  hands a payload with an empty \<open>field_ids\<close> to the service as \<open>None\<close>.
\<close>

lemma select_fields_empty_ids:
  "select_fields document_id (Some []) rs = filter (\<lambda>f. form_id f = document_id) rs"
  "select_fields document_id None rs = filter (\<lambda>f. form_id f = document_id) rs"
proof -
  have "selects document_id (Some []) = (\<lambda>f. form_id f = document_id)"
    and "selects document_id None = (\<lambda>f. form_id f = document_id)"
    by (rule ext, simp add: selects_def)+
  then show "select_fields document_id (Some []) rs = filter (\<lambda>f. form_id f = document_id) rs"
    and "select_fields document_id None rs = filter (\<lambda>f. form_id f = document_id) rs"
    by (simp_all add: select_fields_def)
qed

lemma sync_document_empty_field_ids:
  "sync_document_in g e document_id (Some []) force cr w =
     sync_document_in g e document_id None force cr w"
proof -
  have sel: "selects document_id (Some []) = selects document_id None"
    by (rule ext) (simp add: selects_def)
  show ?thesis
    unfolding sync_document_in_def select_fields_def sel by simp
qed

lemma sync_form_empty_field_ids:
  "sync_form_in g e document_id
     (Some \<lparr>form_id_p = document_id, field_ids_p = [], force_p = force,
            conflict_resolution_p = cr\<rparr>) w =
     http_result (sync_document_in g e document_id None force cr w)"
  by (simp add: sync_form_in_def)

lemma sync_document_empty_field_ids_all:
  assumes "''Form'' \<in> set g" and "''FormField'' \<in> set g"
    and "cr \<noteq> ''overwrite''" and "document_id \<in> forms w"
  shows "\<exists>resp w'. sync_document_in g e document_id (Some []) force cr w = Some (Inr resp, w') \<and>
           map field_id (results resp) =
             map id_ff (filter (\<lambda>f. form_id f = document_id) (rows w))"
  using sync_document_captures [OF assms, of e "Some []" force]
  by (auto simp: select_fields_empty_ids)

text \<open>
  C9 at a failing input: document 1 exists and has two fields; the sync is called with
  \<open>field_ids = []\<close>. The claim says the call selects all fields of the document. As the
  module is written it raises \<open>NameError\<close> at the lookup of \<open>Form\<close>, before the query is
  built, and the route answers 500.
\<close>

theorem sync_document_empty_field_ids_name_error:
  "1 \<in> forms demo_world \<and>
   filter (\<lambda>f. form_id f = 1) (rows demo_world) = [demo_field, blank_field] \<and>
   sync_document remote_deleted 1 (Some []) False ''skip'' demo_world =
     Some (Inl (name_error ''Form''), demo_world\<lparr>io_st := \<lparr>calls = [], ticks = 1\<rparr>\<rparr>) \<and>
   sync_form remote_deleted 1
     (Some \<lparr>form_id_p = 1, field_ids_p = [], force_p = False,
            conflict_resolution_p = ''skip''\<rparr>) demo_world =
     Some (Inl (HTTPException 500 (''Sync failed: '' @ name_error_message ''Form'')),
           demo_world\<lparr>io_st := \<lparr>calls = [], ticks = 1\<rparr>\<rparr>)"
proof -
  have 1: "1 \<in> forms demo_world" by (simp add: demo_world_def)
  have 2: "filter (\<lambda>f. form_id f = 1) (rows demo_world) = [demo_field, blank_field]"
    by (simp add: demo_world_def demo_field_def blank_field_def other_field_def)
  have 3: "sync_document remote_deleted 1 (Some []) False ''skip'' demo_world =
     Some (Inl (name_error ''Form''), demo_world\<lparr>io_st := \<lparr>calls = [], ticks = 1\<rparr>\<rparr>)"
    by (simp add: sync_document_name_error) (simp add: demo_world_def io0_def)
  have 4: "sync_form remote_deleted 1
     (Some \<lparr>form_id_p = 1, field_ids_p = [], force_p = False,
            conflict_resolution_p = ''skip''\<rparr>) demo_world =
     Some (Inl (HTTPException 500 (''Sync failed: '' @ name_error_message ''Form'')),
           demo_world\<lparr>io_st := \<lparr>calls = [], ticks = 1\<rparr>\<rparr>)"
    by (simp add: sync_form_name_error) (simp add: demo_world_def io0_def)
  from 1 2 3 4 show ?thesis by simp
qed

section \<open>Resetting the sync status\<close>

lemma reset_loop_props:
  "reset_loop e fs n s = (fs', n', s') \<Longrightarrow>
   n' = n + length fs \<and> list_all2 reset_of fs fs' \<and> calls s' = calls s"
proof (induction fs arbitrary: n s fs' n' s')
  case Nil
  then show ?case by simp
next
  case (Cons f fs)
  obtain fs1 n1 s1 where r: "reset_loop e fs (n + 1) (s\<lparr>ticks := Suc (ticks s)\<rparr>) = (fs1, n1, s1)"
    by (cases "reset_loop e fs (n + 1) (s\<lparr>ticks := Suc (ticks s)\<rparr>)")
  from Cons.IH [OF r] Cons.prems r show ?case
    by (auto simp: utcnow_def reset_of_def)
qed

lemma write_back_rel:
  "list_all2 R (filter sel rs) us \<Longrightarrow>
   list_all2 (\<lambda>r u. if sel r then R r u else u = r) rs (write_back sel rs us)"
proof (induction rs arbitrary: us)
  case Nil
  then show ?case by simp
next
  case (Cons r rs)
  show ?case
  proof (cases "sel r")
    case True
    with Cons.prems obtain u us' where "us = u # us'" "R r u" "list_all2 R (filter sel rs) us'"
      by (auto simp: list_all2_Cons1)
    with Cons.IH [of us'] True show ?thesis by simp
  next
    case False
    with Cons.prems Cons.IH [of us] show ?thesis by simp
  qed
qed

lemma reset_sync_status_rel:
  assumes "''FormField'' \<in> set g"
  shows "\<exists>n w'. reset_sync_status_in g e d fids w = (Inr n, w') \<and>
           n = length (select_fields d fids (rows w)) \<and>
           list_all2 (\<lambda>r u. if selects d fids r then reset_of r u else u = r) (rows w) (rows w') \<and>
           calls (io_st w') = calls (io_st w) \<and> forms w' = forms w"
proof -
  obtain fs' n' s' where
    l: "reset_loop e (select_fields d fids (rows w)) 0 (io_st w) = (fs', n', s')"
    by (cases "reset_loop e (select_fields d fids (rows w)) 0 (io_st w)")
  with assms have run: "reset_sync_status_in g e d fids w =
      (Inr n', w\<lparr>rows := write_back (selects d fids) (rows w) fs', io_st := s'\<rparr>)"
    by (simp add: reset_sync_status_in_def)
  from reset_loop_props [OF l] have p: "n' = length (select_fields d fids (rows w))"
    "list_all2 reset_of (select_fields d fids (rows w)) fs'" "calls s' = calls (io_st w)"
    by simp_all
  from write_back_rel [of reset_of "selects d fids" "rows w" fs'] p(2)
  have "list_all2 (\<lambda>r u. if selects d fids r then reset_of r u else u = r) (rows w)
          (write_back (selects d fids) (rows w) fs')"
    by (simp add: select_fields_def)
  with run p(1,3) show ?thesis by simp
qed

lemma list_all2_map_eq: "list_all2 (\<lambda>x y. f y = f x) xs ys \<Longrightarrow> map f ys = map f xs"
  by (induction rule: list_all2_induct) simp_all

lemma list_all2_right_all: "list_all2 (\<lambda>x y. P y) xs ys \<Longrightarrow> \<forall>y \<in> set ys. P y"
  by (induction rule: list_all2_induct) simp_all

lemma reset_of_again:
  assumes "status a = ''pending''" and "datapad_field_id a = None" and "reset_of a b"
  shows "b = a\<lparr>updated_at := updated_at b\<rparr>"
proof -
  from assms(3) obtain t where "b = a\<lparr>status := ''pending'', datapad_field_id := None, updated_at := t\<rparr>"
    by (auto simp: reset_of_def)
  with assms(1,2) show ?thesis by (cases a) simp
qed

lemma length_filter_form_id:
  "map form_id xs = map form_id ys \<Longrightarrow>
   length (filter (\<lambda>f. form_id f = d) xs) = length (filter (\<lambda>f. form_id f = d) ys)"
  by (induction xs arbitrary: ys) auto

text \<open>
  With \<open>FormField\<close> bound: \<open>reset_sync_status_in\<close> without a filter returns the number of
  fields of the document; the rows keep their ids and documents, and afterwards every
  field of the document has status \<open>pending\<close> and no remote id. Running it again returns
  the same count and leaves every row as it was, \<open>updated_at\<close> apart, which each run sets
  from the clock.
\<close>

lemma reset_sync_status_all_fields:
  assumes "''FormField'' \<in> set g"
  shows "\<exists>n w'. reset_sync_status_in g e d None w = (Inr n, w') \<and>
         n = length (filter (\<lambda>f. form_id f = d) (rows w)) \<and>
         map id_ff (rows w') = map id_ff (rows w) \<and>
         map form_id (rows w') = map form_id (rows w) \<and>
         (\<forall>f \<in> set (rows w'). form_id f = d \<longrightarrow>
            status f = ''pending'' \<and> datapad_field_id f = None) \<and>
         (\<exists>w2. reset_sync_status_in g e d None w' = (Inr n, w2) \<and>
            list_all2 (\<lambda>a b. b = a\<lparr>updated_at := updated_at b\<rparr>) (rows w') (rows w2))"
proof -
  let ?R = "\<lambda>r u. if form_id r = d then reset_of r u else u = r"
  have sel: "selects d None = (\<lambda>f. form_id f = d)"
    by (rule ext) (simp add: selects_def)
  from reset_sync_status_rel [OF assms, of e d None w] obtain n w' where
    run: "reset_sync_status_in g e d None w = (Inr n, w')"
    and n: "n = length (filter (\<lambda>f. form_id f = d) (rows w))"
    and rel: "list_all2 ?R (rows w) (rows w')"
    by (auto simp: sel select_fields_def)
  have k1: "?R r u \<Longrightarrow> id_ff u = id_ff r" for r u
    by (auto simp: reset_of_def split: if_splits)
  have k2: "?R r u \<Longrightarrow> form_id u = form_id r" for r u
    by (auto simp: reset_of_def split: if_splits)
  have k3: "?R r u \<Longrightarrow> form_id u = d \<longrightarrow> status u = ''pending'' \<and> datapad_field_id u = None"
    for r u
    by (auto simp: reset_of_def split: if_splits)
  from list_all2_mono [OF rel k1] have ids: "map id_ff (rows w') = map id_ff (rows w)"
    by (rule list_all2_map_eq)
  from list_all2_mono [OF rel k2] have fids: "map form_id (rows w') = map form_id (rows w)"
    by (rule list_all2_map_eq)
  from list_all2_mono [OF rel k3]
  have pend: "\<forall>f \<in> set (rows w'). form_id f = d \<longrightarrow>
      status f = ''pending'' \<and> datapad_field_id f = None"
    by (rule list_all2_right_all)
  from reset_sync_status_rel [OF assms, of e d None w'] obtain n2 w2 where
    again: "reset_sync_status_in g e d None w' = (Inr n2, w2)"
    and n2: "n2 = length (filter (\<lambda>f. form_id f = d) (rows w'))"
    and rel2: "list_all2 ?R (rows w') (rows w2)"
    by (auto simp: sel select_fields_def)
  from n n2 length_filter_form_id [OF fids, of d] have same: "n2 = n" by simp
  have same_rows: "list_all2 (\<lambda>a b. b = a\<lparr>updated_at := updated_at b\<rparr>) (rows w') (rows w2)"
  proof (rule list.rel_mono_strong [OF rel2])
    fix a b
    assume a: "a \<in> set (rows w')" and r: "?R a b"
    show "b = a\<lparr>updated_at := updated_at b\<rparr>"
    proof (cases "form_id a = d")
      case True
      with pend a r show ?thesis by (simp add: reset_of_again)
    next
      case False
      with r show ?thesis by simp
    qed
  qed
  from again same same_rows
  have idem: "\<exists>w2. reset_sync_status_in g e d None w' = (Inr n, w2) \<and>
            list_all2 (\<lambda>a b. b = a\<lparr>updated_at := updated_at b\<rparr>) (rows w') (rows w2)"
    by blast
  from run n ids fids pend idem show ?thesis by blast
qed

text \<open>
  C8 at a failing input: document 1 has two fields. The claim promises the count 2 and
  the two fields \<open>pending\<close> without remote id. As the module is written the call raises
  \<open>NameError\<close> at \<open>select(FormField)\<close>, its first statement: it returns no count and the
  store is as before, the first field still \<open>error\<close> with its remote id.
\<close>

theorem reset_sync_status_name_error_at_demo:
  "length (filter (\<lambda>f. form_id f = 1) (rows demo_world)) = 2 \<and>
   reset_sync_status remote_ok 1 None demo_world = (Inl (name_error ''FormField''), demo_world) \<and>
   map status (rows (snd (reset_sync_status remote_ok 1 None demo_world))) =
     [''error'', ''draft'', ''synced''] \<and>
   map datapad_field_id (rows (snd (reset_sync_status remote_ok 1 None demo_world))) =
     [Some ''dp-7'', None, Some ''dp-9'']"
  by (simp add: reset_sync_status_name_error)
     (simp add: demo_world_def demo_field_def blank_field_def other_field_def)

lemma reset_sync_status_bound_run:
  "case reset_sync_status_in bound_globals remote_ok 1 None demo_world of
     (Inr n, w') \<Rightarrow> n = 2 \<and>
       map status (rows w') = [''pending'', ''pending'', ''synced''] \<and>
       map datapad_field_id (rows w') = [None, None, Some ''dp-9'']
   | (Inl x, w') \<Rightarrow> False"
  by code_simp

section \<open>Retries of a request\<close>

lemma handle_error_response_class:
  "\<exists>cls msg. handle_error_response r = DataPadExc cls msg (Some (status_code r)) \<and>
     cls = (if status_code r = 401 \<or> status_code r = 403 then DataPadAuthenticationError
            else if status_code r = 404 then DataPadNotFoundError
            else if status_code r = 422 then DataPadValidationError
            else if status_code r = 429 then DataPadRateLimitError
            else DataPadAPIError)"
  by (simp add: handle_error_response_def Let_def)

lemma request_once_retried:
  "(case request_once t of Inl x \<Rightarrow> retry_if_exception_type x | Inr d \<Rightarrow> False) = transient t"
proof (cases t)
  case (response r)
  from handle_error_response_class [of r] obtain cls msg where
    "handle_error_response r = DataPadExc cls msg (Some (status_code r))" by blast
  with response show ?thesis
    by (simp add: request_once_def retry_if_exception_type_def transient_def
        split: option.splits)
qed (simp_all add: request_once_def retry_if_exception_type_def transient_def)
lemma retrying_stop:
  "\<not> transient (transport n) \<Longrightarrow>
   retrying transport n tr = (request_once (transport n), tr @ [Request n])"
  using request_once_retried [of "transport n"]
  by (subst retrying.simps) (auto split: sum.splits)

lemma retrying_again:
  "transient (transport n) \<Longrightarrow> n < 3 \<Longrightarrow>
   retrying transport n tr =
     retrying transport (Suc n) (tr @ [Request n, Sleep (wait_exponential 1 2 10 n)])"
  using request_once_retried [of "transport n"]
  by (subst retrying.simps) (auto simp: stop_after_attempt_def split: sum.splits)

lemma retrying_give_up:
  "transient (transport n) \<Longrightarrow> n \<ge> 3 \<Longrightarrow>
   retrying transport n tr = (Inl RetryError, tr @ [Request n])"
  using request_once_retried [of "transport n"]
  by (subst retrying.simps) (auto simp: stop_after_attempt_def split: sum.splits)

lemma wait_exponential_bounds:
  "2 \<le> wait_exponential 1 2 10 n \<and> wait_exponential 1 2 10 n \<le> 10"
  by (simp add: wait_exponential_def)

lemma request_shape:
  "request transport =
     (if \<not> transient (transport 1) then (request_once (transport 1), [Request 1])
      else if \<not> transient (transport 2) then
        (request_once (transport 2), [Request 1, Sleep (wait_exponential 1 2 10 1), Request 2])
      else
        (if \<not> transient (transport 3) then request_once (transport 3) else Inl RetryError,
         [Request 1, Sleep (wait_exponential 1 2 10 1), Request 2,
          Sleep (wait_exponential 1 2 10 2), Request 3]))"
proof (cases "transient (transport 1)")
  case False
  from retrying_stop [of transport 1 "[]"] False show ?thesis
    by (simp add: request_def)
next
  case t1: True
  from retrying_again [of transport 1 "[]"] t1
  have r1: "request transport =
      retrying transport 2 [Request 1, Sleep (wait_exponential 1 2 10 1)]"
    by (simp add: request_def numeral_2_eq_2)
  show ?thesis
  proof (cases "transient (transport 2)")
    case False
    from retrying_stop [of transport 2 "[Request 1, Sleep (wait_exponential 1 2 10 1)]"]
      r1 t1 False
    show ?thesis by simp
  next
    case t2: True
    from retrying_again [of transport 2 "[Request 1, Sleep (wait_exponential 1 2 10 1)]"] t2 r1
    have r2: "request transport =
        retrying transport 3 [Request 1, Sleep (wait_exponential 1 2 10 1), Request 2,
          Sleep (wait_exponential 1 2 10 2)]"
      by (simp add: numeral_3_eq_3 numeral_2_eq_2)
    show ?thesis
    proof (cases "transient (transport 3)")
      case False
      from retrying_stop [of transport 3 "[Request 1, Sleep (wait_exponential 1 2 10 1), Request 2,
          Sleep (wait_exponential 1 2 10 2)]"] r2 t1 t2 False show ?thesis by simp
    next
      case True
      from retrying_give_up [of transport 3 "[Request 1, Sleep (wait_exponential 1 2 10 1), Request 2,
          Sleep (wait_exponential 1 2 10 2)]"] r2 t1 t2 True show ?thesis by simp
    qed
  qed
qed

lemma wait_exponential_first_two:
  "wait_exponential 1 2 10 1 = 2" "wait_exponential 1 2 10 (Suc 0) = 2"
  "wait_exponential 1 2 10 2 = 2"
  by (simp_all add: wait_exponential_def)

text \<open>
  C7. A run of \<open>_request\<close> is one of three: the first request does not time out or fail
  on the network, and its outcome is the outcome of the run after that one request; or
  it does and the second does not, and the run sleeps 2 seconds, issues the second
  request and ends with its outcome; or both do, and the run sleeps again, issues a
  third request and ends with its outcome, or with \<open>RetryError\<close> when the third times out
  or fails on the network too. So a request is retried exactly after a timeout or a
  network failure, there are at most three requests, and every sleep of the policy lasts
  between 2 and 10 seconds. A response with status 400 or more is neither a timeout nor
  a network failure: its request is the last one and the run raises the error that
  \<open>_handle_error_response\<close> classifies; when the first request receives such a response,
  it is the only request issued.
\<close>

theorem request_retry_policy:
  "request transport =
     (if \<not> (transport 1 = timeout_exception \<or> transport 1 = network_error) then
        (request_once (transport 1), [Request 1])
      else if \<not> (transport 2 = timeout_exception \<or> transport 2 = network_error) then
        (request_once (transport 2), [Request 1, Sleep 2, Request 2])
      else
        (if \<not> (transport 3 = timeout_exception \<or> transport 3 = network_error)
         then request_once (transport 3) else Inl RetryError,
         [Request 1, Sleep 2, Request 2, Sleep 2, Request 3])) \<and>
   (\<forall>n. 2 \<le> wait_exponential 1 2 10 n \<and> wait_exponential 1 2 10 n \<le> 10) \<and>
   (\<forall>r. 400 \<le> status_code r \<longrightarrow>
        request_once (response r) = Inl (handle_error_response r) \<and>
        (\<exists>msg. handle_error_response r =
           DataPadExc
             (if status_code r = 401 \<or> status_code r = 403 then DataPadAuthenticationError
              else if status_code r = 404 then DataPadNotFoundError
              else if status_code r = 422 then DataPadValidationError
              else if status_code r = 429 then DataPadRateLimitError
              else DataPadAPIError) msg (Some (status_code r)))) \<and>
   (case request transport of (result, trace) \<Rightarrow>
     1 \<le> length [n. Request n \<leftarrow> trace] \<and> length [n. Request n \<leftarrow> trace] \<le> 3 \<and>
     (\<forall>d. Sleep d \<in> set trace \<longrightarrow> 2 \<le> d \<and> d \<le> 10) \<and>
     (\<forall>n. Request (Suc n) \<in> set trace \<and> 0 < n \<longrightarrow>
          transport n = timeout_exception \<or> transport n = network_error) \<and>
     (\<forall>n r. Request n \<in> set trace \<and> transport n = response r \<and> 400 \<le> status_code r \<longrightarrow>
          Request (Suc n) \<notin> set trace \<and> result = Inl (handle_error_response r)) \<and>
     (\<forall>r. transport 1 = response r \<and> 400 \<le> status_code r \<longrightarrow>
          trace = [Request 1] \<and> result = Inl (handle_error_response r)))"
proof -
  have w: "2 \<le> wait_exponential 1 2 10 n \<and> wait_exponential 1 2 10 n \<le> 10" for n
    by (rule wait_exponential_bounds)
  have shape: "request transport =
     (if \<not> (transport 1 = timeout_exception \<or> transport 1 = network_error) then
        (request_once (transport 1), [Request 1])
      else if \<not> (transport 2 = timeout_exception \<or> transport 2 = network_error) then
        (request_once (transport 2), [Request 1, Sleep 2, Request 2])
      else
        (if \<not> (transport 3 = timeout_exception \<or> transport 3 = network_error)
         then request_once (transport 3) else Inl RetryError,
         [Request 1, Sleep 2, Request 2, Sleep 2, Request 3]))"
    by (simp add: request_shape wait_exponential_first_two transient_def)
  have cls: "\<forall>r. 400 \<le> status_code r \<longrightarrow>
        request_once (response r) = Inl (handle_error_response r) \<and>
        (\<exists>msg. handle_error_response r =
           DataPadExc
             (if status_code r = 401 \<or> status_code r = 403 then DataPadAuthenticationError
              else if status_code r = 404 then DataPadNotFoundError
              else if status_code r = 422 then DataPadValidationError
              else if status_code r = 429 then DataPadRateLimitError
              else DataPadAPIError) msg (Some (status_code r)))"
  proof (intro allI impI)
    fix r :: http_response
    assume "400 \<le> status_code r"
    then have a: "request_once (response r) = Inl (handle_error_response r)"
      by (simp add: request_once_def)
    from handle_error_response_class [of r]
    have "\<exists>msg. handle_error_response r =
           DataPadExc
             (if status_code r = 401 \<or> status_code r = 403 then DataPadAuthenticationError
              else if status_code r = 404 then DataPadNotFoundError
              else if status_code r = 422 then DataPadValidationError
              else if status_code r = 429 then DataPadRateLimitError
              else DataPadAPIError) msg (Some (status_code r))"
      by blast
    with a show "request_once (response r) = Inl (handle_error_response r) \<and>
        (\<exists>msg. handle_error_response r =
           DataPadExc
             (if status_code r = 401 \<or> status_code r = 403 then DataPadAuthenticationError
              else if status_code r = 404 then DataPadNotFoundError
              else if status_code r = 422 then DataPadValidationError
              else if status_code r = 429 then DataPadRateLimitError
              else DataPadAPIError) msg (Some (status_code r)))"
      by simp
  qed
  have ro: "transport n = response r \<Longrightarrow> 400 \<le> status_code r \<Longrightarrow>
      request_once (transport n) = Inl (handle_error_response r) \<and> \<not> transient (transport n)" for n r
    by (simp add: request_once_def transient_def)
  have trace: "(case request transport of (result, trace) \<Rightarrow>
     1 \<le> length [n. Request n \<leftarrow> trace] \<and> length [n. Request n \<leftarrow> trace] \<le> 3 \<and>
     (\<forall>d. Sleep d \<in> set trace \<longrightarrow> 2 \<le> d \<and> d \<le> 10) \<and>
     (\<forall>n. Request (Suc n) \<in> set trace \<and> 0 < n \<longrightarrow>
          transport n = timeout_exception \<or> transport n = network_error) \<and>
     (\<forall>n r. Request n \<in> set trace \<and> transport n = response r \<and> 400 \<le> status_code r \<longrightarrow>
          Request (Suc n) \<notin> set trace \<and> result = Inl (handle_error_response r)) \<and>
     (\<forall>r. transport 1 = response r \<and> 400 \<le> status_code r \<longrightarrow>
          trace = [Request 1] \<and> result = Inl (handle_error_response r)))"
  proof -
    consider (a) "\<not> transient (transport 1)"
      | (b) "transient (transport 1)" "\<not> transient (transport 2)"
      | (c) "transient (transport 1)" "transient (transport 2)" by blast
    then show ?thesis
    proof cases
      case a
      then show ?thesis using ro [of 1] by (auto simp: request_shape)
    next
      case b
      then show ?thesis using ro [of 1] ro [of 2] w [of 1]
        by (auto simp: request_shape transient_def)
    next
      case c
      then show ?thesis using ro [of 1] ro [of 2] ro [of 3] w [of 1] w [of 2]
        by (auto simp: request_shape transient_def)
    qed
  qed
  from shape w cls trace show ?thesis by blast
qed

theorem request_retry_policy_witness:
  "request dead_transport =
     (Inl RetryError, [Request 1, Sleep 2, Request 2, Sleep 2, Request 3]) \<and>
   request flaky_transport =
     (Inl (DataPadExc DataPadNotFoundError ''gone'' (Some 404)),
      [Request 1, Sleep 2, Request 2]) \<and>
   request gone_transport =
     (Inl (DataPadExc DataPadNotFoundError ''gone'' (Some 404)), [Request 1])"
proof -
  have h: "handle_error_response gone_response = DataPadExc DataPadNotFoundError ''gone'' (Some 404)"
    by (simp add: handle_error_response_def gone_response_def)
  have sc: "400 \<le> status_code gone_response" by (simp add: gone_response_def)
  have ro: "request_once (response gone_response) = Inl (handle_error_response gone_response)"
    using sc by (simp add: request_once_def)
  from request_retry_policy [of dead_transport]
  have d: "request dead_transport =
     (Inl RetryError, [Request 1, Sleep 2, Request 2, Sleep 2, Request 3])"
    by (simp add: dead_transport_def)
  from request_retry_policy [of flaky_transport] ro h
  have f: "request flaky_transport =
     (Inl (DataPadExc DataPadNotFoundError ''gone'' (Some 404)),
      [Request 1, Sleep 2, Request 2])"
    by (simp add: flaky_transport_def)
  from request_retry_policy [of gone_transport] ro h
  have g: "request gone_transport =
     (Inl (DataPadExc DataPadNotFoundError ''gone'' (Some 404)), [Request 1])"
    by (simp add: gone_transport_def)
  from d f g show ?thesis by simp
qed

end
